theory Spec2Isabelle
  imports Complex_Main
begin

section \<open>Python strings\<close>

text \<open>
  A Python \<open>str\<close> is modelled as a \<open>string\<close> whose characters are the code points
  below 256. \<open>str.lower\<close> maps the upper-case letters of that range (A-Z and the
  Latin-1 capitals except the multiplication sign) to their lower-case letters;
  \<open>str.strip\<close> removes, at both ends, the characters for which \<open>str.isspace\<close> holds.
\<close>

definition py_lower_char :: "char \<Rightarrow> char" where
  "py_lower_char c =
     (let n = (of_char c :: int)
      in if (65 \<le> n \<and> n \<le> 90) \<or> (192 \<le> n \<and> n \<le> 222 \<and> n \<noteq> 215)
         then char_of (n + 32) else c)"

definition py_lower :: "string \<Rightarrow> string" where
  "py_lower s = map py_lower_char s"

definition py_isspace :: "char \<Rightarrow> bool" where
  "py_isspace c =
     (let n = (of_char c :: int)
      in (9 \<le> n \<and> n \<le> 13) \<or> (28 \<le> n \<and> n \<le> 32) \<or> n = 133 \<or> n = 160)"

definition py_strip :: "string \<Rightarrow> string" where
  "py_strip s = rev (dropWhile py_isspace (rev (dropWhile py_isspace s)))"

text \<open>\<open>d.get(key, default)\<close> on a key whose value, when present, is a string.\<close>

definition dict_get :: "'a option \<Rightarrow> 'a \<Rightarrow> 'a" where
  "dict_get v d = (case v of None \<Rightarrow> d | Some s \<Rightarrow> s)"

section \<open>Business dictionaries and the object store\<close>

text \<open>
  \<open>business_collector.py\<close> represents a business as a dict with the keys below. A field
  is \<open>None\<close> when the key is absent. Lists hold references to dicts, so a list of
  businesses is a list of addresses into a store; two occurrences of an address are the
  same object.
\<close>

record business =
  name :: "string option"
  email :: "string option"
  phone :: "string option"
  address :: "string option"
  website :: "string option"
  business_type :: "string option"
  verified :: "bool option"
  source :: "string option"

type_synonym addr = nat
type_synonym store = "business list"

subsection \<open>\<open>BusinessCollector._remove_duplicates\<close>\<close>

definition norm_name :: "business \<Rightarrow> string" where
  "norm_name b = py_strip (py_lower (dict_get (name b) ''''))"

definition norm_email :: "business \<Rightarrow> string" where
  "norm_email b = py_strip (py_lower (dict_get (email b) ''''))"

fun remove_duplicates_loop ::
  "store \<Rightarrow> addr list \<Rightarrow> string set \<Rightarrow> string set \<Rightarrow> addr list \<Rightarrow> addr list" where
  "remove_duplicates_loop h [] seen_names seen_emails unique_businesses = unique_businesses"
| "remove_duplicates_loop h (b # bs) seen_names seen_emails unique_businesses =
     (let nm = norm_name (h ! b); em = norm_email (h ! b)
      in if nm \<notin> seen_names \<and> em \<notin> seen_emails
         then remove_duplicates_loop h bs (insert nm seen_names) (insert em seen_emails)
                (unique_businesses @ [b])
         else remove_duplicates_loop h bs seen_names seen_emails unique_businesses)"

definition remove_duplicates :: "store \<Rightarrow> addr list \<Rightarrow> addr list" where
  "remove_duplicates h businesses = remove_duplicates_loop h businesses {} {} []"

section \<open>Binary64 arithmetic\<close>

text \<open>
  A Python \<open>float\<close> is an IEEE 754 binary64 number. A finite one is \<open>m * 2 ^ e\<close> with
  \<open>\<bar>m\<bar> < 2 ^ 53\<close>; it is kept as the pair \<open>(m, e)\<close>, and \<open>fval\<close> is the rational it
  denotes. \<open>round53\<close> rounds an exact dyadic number to 53 significant bits, ties to
  even; \<open>fadd\<close> is the addition of two floats (the exact sum, rounded). Exponent
  overflow and subnormal numbers are not modelled: every number below lies between
  \<open>0.05\<close> and \<open>1.25\<close>, or is \<open>0\<close>.
\<close>

type_synonym binary64 = "int \<times> int"

definition fval :: "binary64 \<Rightarrow> rat" where
  "fval x = (case x of (m, e) \<Rightarrow> of_int m * power_int 2 e)"

text \<open>The number of bits of \<open>m\<close> beyond 53.\<close>

function excess_bits :: "int \<Rightarrow> nat" where
  "excess_bits m = (if m < 2 ^ 53 then 0 else Suc (excess_bits (m div 2)))"
  by pat_completeness auto
termination
  by (relation "measure (\<lambda>m. nat m)") auto

declare excess_bits.simps [simp del]

definition round53 :: "int \<Rightarrow> int \<Rightarrow> binary64" where
  "round53 m e =
     (let k = excess_bits \<bar>m\<bar>
      in if k = 0 then (m, e)
         else let q = \<bar>m\<bar> div 2 ^ k; r = \<bar>m\<bar> mod 2 ^ k; h = 2 ^ (k - 1);
                  q' = (if r < h \<or> (r = h \<and> even q) then q else q + 1)
              in (sgn m * q', e + int k))"

definition fadd :: "binary64 \<Rightarrow> binary64 \<Rightarrow> binary64" where
  "fadd x y =
     (case (x, y) of ((m1, e1), (m2, e2)) \<Rightarrow>
        let e = min e1 e2 in round53 (m1 * 2 ^ nat (e1 - e) + m2 * 2 ^ nat (e2 - e)) e)"

text \<open>\<open>x <= y\<close> on floats, and \<open>min(x, y)\<close>, which returns \<open>x\<close> unless \<open>y < x\<close>.\<close>

definition fle :: "binary64 \<Rightarrow> binary64 \<Rightarrow> bool" where
  "fle x y =
     (case (x, y) of ((m1, e1), (m2, e2)) \<Rightarrow>
        let e = min e1 e2 in m1 * 2 ^ nat (e1 - e) \<le> m2 * 2 ^ nat (e2 - e))"

definition fmin :: "binary64 \<Rightarrow> binary64 \<Rightarrow> binary64" where
  "fmin x y = (if fle y x \<and> \<not> fle x y then y else x)"

text \<open>
  The float literals of \<open>_calculate_confidence_score\<close>: each is the binary64 number
  nearest to the decimal (lemma \<open>float_literals_nearest\<close>).
\<close>

definition f_0_0 :: binary64 where "f_0_0 = (0, 0)"
definition f_0_3 :: binary64 where "f_0_3 = (5404319552844595, - 54)"
definition f_0_25 :: binary64 where "f_0_25 = (1, - 2)"
definition f_0_2 :: binary64 where "f_0_2 = (3602879701896397, - 54)"
definition f_0_15 :: binary64 where "f_0_15 = (5404319552844595, - 55)"
definition f_0_1 :: binary64 where "f_0_1 = (3602879701896397, - 55)"
definition f_0_05 :: binary64 where "f_0_05 = (3602879701896397, - 56)"
definition f_1_0 :: binary64 where "f_1_0 = (1, 0)"

section \<open>The dataclasses of the enhanced and the free collector\<close>

text \<open>\<open>x or default\<close> on an optional string: \<open>None\<close> and the empty string are falsy.\<close>

definition py_or :: "string option \<Rightarrow> string \<Rightarrow> string" where
  "py_or v d = (case v of None \<Rightarrow> d | Some s \<Rightarrow> if s = [] then d else s)"

text \<open>
  \<open>enhanced_scraper.ScrapedBusiness\<close>.
\<close>

record ScrapedBusiness =
  sb_name :: string
  sb_email :: "string option"
  sb_phone :: "string option"
  sb_address :: "string option"
  sb_website :: "string option"
  sb_business_type :: "string option"
  sb_category :: "string option"
  sb_city :: "string option"
  sb_description :: "string option"
  sb_social_media :: "(string \<times> string) list option"
  sb_verified :: bool
  sb_source :: string
  sb_confidence_score :: binary64

text \<open>\<open>free_business_collector.BusinessData\<close>.\<close>

record BusinessData =
  fb_name :: string
  fb_email :: "string option"
  fb_phone :: "string option"
  fb_address :: "string option"
  fb_website :: "string option"
  fb_business_type :: "string option"
  fb_category :: "string option"
  fb_city :: "string option"
  fb_verified :: bool
  fb_source :: string

subsection \<open>\<open>EnhancedScraper._remove_duplicates\<close> and \<open>FreeBusinessCollector._remove_duplicates\<close>\<close>

text \<open>
  Both methods run the same loop over one set \<open>seen\<close> of identifiers; they differ in the
  identifier, an f-string that joins the parts with underscores.
\<close>

fun seen_loop :: "('a \<Rightarrow> string) \<Rightarrow> 'a list \<Rightarrow> string set \<Rightarrow> 'a list \<Rightarrow> 'a list" where
  "seen_loop identifier [] seen unique_businesses = unique_businesses"
| "seen_loop identifier (b # bs) seen unique_businesses =
     (if identifier b \<notin> seen
      then seen_loop identifier bs (insert (identifier b) seen) (unique_businesses @ [b])
      else seen_loop identifier bs seen unique_businesses)"

definition enhanced_identifier :: "ScrapedBusiness \<Rightarrow> string" where
  "enhanced_identifier b =
     py_strip (py_lower (sb_name b)) @ ''_'' @ py_or (sb_phone b) ''no_phone''
       @ ''_'' @ py_or (sb_city b) ''no_city''"

definition enhanced_remove_duplicates :: "ScrapedBusiness list \<Rightarrow> ScrapedBusiness list" where
  "enhanced_remove_duplicates businesses = seen_loop enhanced_identifier businesses {} []"

definition free_identifier :: "BusinessData \<Rightarrow> string" where
  "free_identifier b =
     py_strip (py_lower (fb_name b)) @ ''_'' @ py_or (fb_phone b) ''no_phone''"

definition free_remove_duplicates :: "BusinessData list \<Rightarrow> BusinessData list" where
  "free_remove_duplicates businesses = seen_loop free_identifier businesses {} []"

text \<open>
  The deduplication read by positions: the records of the input whose identifier does
  not occur among the earlier records.
\<close>

definition first_occurrences :: "('a \<Rightarrow> string) \<Rightarrow> 'a list \<Rightarrow> 'a list" where
  "first_occurrences identifier bs =
     map (\<lambda>i. bs ! i)
       (filter (\<lambda>i. identifier (bs ! i) \<notin> set (map identifier (take i bs)))
          [0 ..< length bs])"

text \<open>Two scraped records with one name and different phones, for each dataclass.\<close>

definition acme_scraped :: "string \<Rightarrow> ScrapedBusiness" where
  "acme_scraped ph =
     \<lparr>sb_name = ''Acme'', sb_email = None, sb_phone = Some ph, sb_address = None,
      sb_website = None, sb_business_type = Some ''Technology'', sb_category = None,
      sb_city = Some ''Karachi'', sb_description = None, sb_social_media = None,
      sb_verified = False, sb_source = ''yellow_pages_pk'', sb_confidence_score = f_0_0\<rparr>"

definition acme_free :: "string \<Rightarrow> BusinessData" where
  "acme_free ph =
     \<lparr>fb_name = ''Acme'', fb_email = None, fb_phone = Some ph, fb_address = None,
      fb_website = None, fb_business_type = Some ''Technology'', fb_category = None,
      fb_city = Some ''Karachi'', fb_verified = False, fb_source = ''yellow_pages_pk''\<rparr>"

section \<open>Email validation\<close>

text \<open>
  Exceptions are values. \<open>EmailNotValidError\<close> stands for an instance of that class or
  of a subclass; \<open>ValueError\<close> for an instance of \<open>ValueError\<close> that is not an
  \<open>EmailNotValidError\<close>.
\<close>

datatype exn =
  EmailNotValidError | ValueError | IndexError | TypeError | KeyError | AttributeError
  | OtherException

subsection \<open>Regular expressions\<close>

text \<open>
  The part of \<open>re\<close> that the fallback validator needs: character classes, sequence,
  alternative and repetition, matched by derivatives. \<open>re.match(p, s)\<close> with a pattern
  \<open>^...$\<close> succeeds when the pattern matches the whole of \<open>s\<close>, or all of it up to one
  final newline.
\<close>

datatype regex = Nul | Eps | Cls string | Seq regex regex | Alt regex regex | Star regex

fun nullable :: "regex \<Rightarrow> bool" where
  "nullable Nul = False"
| "nullable Eps = True"
| "nullable (Cls cs) = False"
| "nullable (Seq r s) = (nullable r \<and> nullable s)"
| "nullable (Alt r s) = (nullable r \<or> nullable s)"
| "nullable (Star r) = True"

text \<open>Sequence and alternative, with the empty language simplified away.\<close>

fun seq :: "regex \<Rightarrow> regex \<Rightarrow> regex" where
  "seq Nul s = Nul"
| "seq r s = Seq r s"

fun alt :: "regex \<Rightarrow> regex \<Rightarrow> regex" where
  "alt Nul s = s"
| "alt r Nul = r"
| "alt r s = Alt r s"

fun deriv :: "char \<Rightarrow> regex \<Rightarrow> regex" where
  "deriv c Nul = Nul"
| "deriv c Eps = Nul"
| "deriv c (Cls cs) = (if c \<in> set cs then Eps else Nul)"
| "deriv c (Seq r s) =
     (if nullable r then alt (seq (deriv c r) s) (deriv c s) else seq (deriv c r) s)"
| "deriv c (Alt r s) = alt (deriv c r) (deriv c s)"
| "deriv c (Star r) = seq (deriv c r) (Star r)"

definition re_match_anchored :: "regex \<Rightarrow> string \<Rightarrow> bool" where
  "re_match_anchored r s = nullable (fold deriv s (Seq r (Alt Eps (Cls [CHR 0x0A]))))"

definition Plus :: "regex \<Rightarrow> regex" where
  "Plus r = Seq r (Star r)"

definition ascii_letters :: string where
  "ascii_letters = ''abcdefghijklmnopqrstuvwxyzABCDEFGHIJKLMNOPQRSTUVWXYZ''"

definition digits :: string where
  "digits = ''0123456789''"

text \<open>The pattern \<open>^[a-zA-Z0-9._%+-]+@[a-zA-Z0-9.-]+\.[a-zA-Z]{2,}$\<close>.\<close>

definition email_pattern :: regex where
  "email_pattern =
     Seq (Plus (Cls (ascii_letters @ digits @ ''._%+-'')))
    (Seq (Cls ''@'')
    (Seq (Plus (Cls (ascii_letters @ digits @ ''.-'')))
    (Seq (Cls ''.'')
    (Seq (Cls ascii_letters) (Seq (Cls ascii_letters) (Star (Cls ascii_letters)))))))"

subsection \<open>The fallback \<open>validate_email\<close> of \<open>business_collector.py\<close>\<close>

definition validate_email_fallback :: "string \<Rightarrow> exn + string" where
  "validate_email_fallback em =
     (if \<not> re_match_anchored email_pattern em then Inl ValueError else Inr em)"

subsection \<open>\<open>BusinessCollector._validate_business_emails\<close>\<close>

fun py_split :: "char \<Rightarrow> string \<Rightarrow> string list" where
  "py_split c [] = [[]]"
| "py_split c (x # xs) =
     (if x = c then [] # py_split c xs
      else (case py_split c xs of [] \<Rightarrow> [[x]] | p # ps \<Rightarrow> (x # p) # ps))"

definition py_index :: "'a list \<Rightarrow> nat \<Rightarrow> exn + 'a" where
  "py_index xs i = (if i < length xs then Inr (xs ! i) else Inl IndexError)"

text \<open>
  The statements of the \<open>try\<close> block after the test for an empty email. \<open>validate\<close> is
  the imported \<open>validate_email\<close> (the library's or the fallback); \<open>dns\<close> is
  \<open>dns.resolver.resolve(domain, 'MX')\<close>, \<open>None\<close> when it returns and the exception when it
  raises. The result \<open>Inr True\<close> means that the record was appended to
  \<open>valid_businesses\<close>.
\<close>

definition validate_try ::
  "(string \<Rightarrow> exn + 'r) \<Rightarrow> (string \<Rightarrow> exn option) \<Rightarrow> string \<Rightarrow> exn + bool" where
  "validate_try validate dns em =
     (case validate em of
        Inl e \<Rightarrow> Inl e
      | Inr _ \<Rightarrow>
          (case py_index (py_split (CHR ''@'') em) 1 of
             Inl e \<Rightarrow> Inl e
           | Inr domain \<Rightarrow> (case dns domain of None \<Rightarrow> Inr True | Some e \<Rightarrow> Inr True)))"

text \<open>One iteration: \<open>True\<close> when the record goes to \<open>valid_businesses\<close>.\<close>

definition email_is_valid ::
  "(string \<Rightarrow> exn + 'r) \<Rightarrow> (string \<Rightarrow> exn option) \<Rightarrow> business \<Rightarrow> bool" where
  "email_is_valid validate dns b =
     (let em = dict_get (email b) ''''
      in if em = [] then False
         else (case validate_try validate dns em of
                 Inr v \<Rightarrow> v
               | Inl e \<Rightarrow> (if e = EmailNotValidError then False else True)))"

fun validate_loop ::
  "(string \<Rightarrow> exn + 'r) \<Rightarrow> (string \<Rightarrow> exn option) \<Rightarrow> store \<Rightarrow> addr list \<Rightarrow>
     addr list \<times> addr list \<Rightarrow> addr list \<times> addr list" where
  "validate_loop validate dns h [] (valid_businesses, invalid_businesses) =
     (valid_businesses, invalid_businesses)"
| "validate_loop validate dns h (b # bs) (valid_businesses, invalid_businesses) =
     (if email_is_valid validate dns (h ! b)
      then validate_loop validate dns h bs (valid_businesses @ [b], invalid_businesses)
      else validate_loop validate dns h bs (valid_businesses, invalid_businesses @ [b]))"

definition validate_business_emails ::
  "(string \<Rightarrow> exn + 'r) \<Rightarrow> (string \<Rightarrow> exn option) \<Rightarrow> store \<Rightarrow> addr list \<Rightarrow>
     addr list \<times> addr list" where
  "validate_business_emails validate dns h businesses =
     validate_loop validate dns h businesses ([], [])"

text \<open>A scraped record whose email is not an email address.\<close>

definition malformed_business :: business where
  "malformed_business =
     \<lparr>name = Some ''Acme'', email = Some ''not-an-email'', phone = Some ''+92-21-12345678'',
      address = Some ''Karachi, Pakistan'', website = Some ''https://acme.example'',
      business_type = Some ''Technology'', verified = Some False,
      source = Some ''google_search''\<rparr>"

section \<open>The enhanced scraper\<close>

text \<open>
  Truthiness of an optional string, \<open>s.startswith(p)\<close> and the substring test
  \<open>sub in s\<close>.
\<close>

definition truthy :: "string option \<Rightarrow> bool" where
  "truthy v = (case v of None \<Rightarrow> False | Some s \<Rightarrow> s \<noteq> [])"

definition py_startswith :: "string \<Rightarrow> string \<Rightarrow> bool" where
  "py_startswith s p = (take (length p) s = p)"

fun py_in :: "string \<Rightarrow> string \<Rightarrow> bool" where
  "py_in sub [] = (sub = [])"
| "py_in sub (c # cs) = (py_startswith (c # cs) sub \<or> py_in sub cs)"

subsection \<open>\<open>EnhancedScraper._calculate_confidence_score\<close>\<close>

definition name_ok :: "string \<Rightarrow> bool" where
  "name_ok n = (n \<noteq> [] \<and> 3 \<le> length (py_strip n))"

definition type_in_category :: "ScrapedBusiness \<Rightarrow> bool" where
  "type_in_category business =
     (case (sb_business_type business, sb_category business) of
        (Some t, Some c) \<Rightarrow> t \<noteq> [] \<and> c \<noteq> [] \<and> py_in (py_lower t) (py_lower c)
      | _ \<Rightarrow> False)"

definition trusted_source :: "string \<Rightarrow> bool" where
  "trusted_source s = (s \<in> set [''pakistan_business_directory'', ''yellow_pages_pk''])"

definition calculate_confidence_score :: "ScrapedBusiness \<Rightarrow> binary64" where
  "calculate_confidence_score business =
     (let score = f_0_0;
          score = (if name_ok (sb_name business) then fadd score f_0_3 else score);
          score = (if truthy (sb_email business) then fadd score f_0_25 else score);
          score = (if truthy (sb_phone business) then fadd score f_0_2 else score);
          score = (if truthy (sb_website business) then fadd score f_0_15 else score);
          score = (if truthy (sb_address business) then fadd score f_0_1 else score);
          score = (if type_in_category business then fadd score f_0_1 else score);
          score = (if trusted_source (sb_source business) then fadd score f_0_05 else score)
      in fmin score f_1_0)"

text \<open>The same chain of additions as a function of the outcomes of the seven tests.\<close>

definition score_of_tests ::
  "bool \<Rightarrow> bool \<Rightarrow> bool \<Rightarrow> bool \<Rightarrow> bool \<Rightarrow> bool \<Rightarrow> bool \<Rightarrow> binary64" where
  "score_of_tests n e p w a c s =
     (let score = f_0_0;
          score = (if n then fadd score f_0_3 else score);
          score = (if e then fadd score f_0_25 else score);
          score = (if p then fadd score f_0_2 else score);
          score = (if w then fadd score f_0_15 else score);
          score = (if a then fadd score f_0_1 else score);
          score = (if c then fadd score f_0_1 else score);
          score = (if s then fadd score f_0_05 else score)
      in fmin score f_1_0)"

text \<open>
  The weighted sum in exact arithmetic, as a function of the outcomes of the seven
  tests and of a record. \<open>weighted_sum_by_length\<close> gives the name bonus to every name of
  at least three characters; \<open>weighted_sum\<close> gives it when the name passes the test of
  the code, which measures the trimmed name.
\<close>

definition exact_of_tests ::
  "bool \<Rightarrow> bool \<Rightarrow> bool \<Rightarrow> bool \<Rightarrow> bool \<Rightarrow> bool \<Rightarrow> bool \<Rightarrow> rat" where
  "exact_of_tests n e p w a c s =
     min 1 ((if n then 3 / 10 else 0) + (if e then 25 / 100 else 0) + (if p then 2 / 10 else 0)
       + (if w then 15 / 100 else 0) + (if a then 1 / 10 else 0) + (if c then 1 / 10 else 0)
       + (if s then 5 / 100 else 0))"

definition weighted_sum_by_length :: "ScrapedBusiness \<Rightarrow> rat" where
  "weighted_sum_by_length business =
     exact_of_tests (3 \<le> length (sb_name business)) (truthy (sb_email business))
       (truthy (sb_phone business)) (truthy (sb_website business))
       (truthy (sb_address business)) (type_in_category business)
       (trusted_source (sb_source business))"

definition weighted_sum :: "ScrapedBusiness \<Rightarrow> rat" where
  "weighted_sum business =
     exact_of_tests (name_ok (sb_name business)) (truthy (sb_email business))
       (truthy (sb_phone business)) (truthy (sb_website business))
       (truthy (sb_address business)) (type_in_category business)
       (trusted_source (sb_source business))"

text \<open>Records for the boundary cases.\<close>

definition bare_business :: "string \<Rightarrow> ScrapedBusiness" where
  "bare_business n =
     \<lparr>sb_name = n, sb_email = None, sb_phone = None, sb_address = None,
      sb_website = None, sb_business_type = None, sb_category = None,
      sb_city = None, sb_description = None, sb_social_media = None,
      sb_verified = False, sb_source = ''enhanced_scraper'', sb_confidence_score = f_0_0\<rparr>"

definition full_business :: ScrapedBusiness where
  "full_business =
     \<lparr>sb_name = ''Arpatech'', sb_email = Some ''contact@arpatech.com'',
      sb_phone = Some ''+92-21-34567890'', sb_address = Some ''Defence, Karachi'',
      sb_website = Some ''https://arpatech.com'', sb_business_type = Some ''Technology'',
      sb_category = None, sb_city = Some ''Karachi'', sb_description = None,
      sb_social_media = None, sb_verified = False, sb_source = ''yellow_pages_pk'',
      sb_confidence_score = f_0_0\<rparr>"

subsection \<open>\<open>EnhancedScraper._extract_business_from_element\<close>\<close>

text \<open>
  An HTML element is what the method asks of it: for a CSS selector, the stripped text
  of the first descendant that matches (\<open>select_one\<close>, then \<open>get_text(strip=True)\<close>), and
  the text of the element. \<open>_extract_contact_info\<close> is a parameter: the dict it
  returns, as the four values that \<open>contact_info.get\<close> reads.
\<close>

record element =
  el_select_one :: "string \<Rightarrow> string option"
  el_get_text :: string

record contact_info =
  ci_email :: "string option"
  ci_phone :: "string option"
  ci_address :: "string option"
  ci_website :: "string option"

text \<open>The loop over \<open>name_selectors\<close>, which stops at the first selector that matches.\<close>

fun select_name :: "element \<Rightarrow> string list \<Rightarrow> string option" where
  "select_name el [] = None"
| "select_name el (selector # selectors) =
     (case el_select_one el selector of
        Some text \<Rightarrow> Some text
      | None \<Rightarrow> select_name el selectors)"

definition new_scraped_business :: "string \<Rightarrow> string \<Rightarrow> string \<Rightarrow> string \<Rightarrow> ScrapedBusiness" where
  "new_scraped_business n category city source_name =
     \<lparr>sb_name = n, sb_email = None, sb_phone = None, sb_address = None,
      sb_website = None, sb_business_type = Some category, sb_category = None,
      sb_city = Some city, sb_description = None, sb_social_media = None,
      sb_verified = False, sb_source = source_name, sb_confidence_score = f_0_0\<rparr>"

definition extract_business_from_element ::
  "(string \<Rightarrow> contact_info) \<Rightarrow> element \<Rightarrow> string list \<Rightarrow> string \<Rightarrow> string \<Rightarrow> string \<Rightarrow>
     ScrapedBusiness option" where
  "extract_business_from_element extract_contact_info el name_selectors category city source_name =
     (case select_name el name_selectors of
        None \<Rightarrow> None
      | Some n \<Rightarrow>
          if n = [] \<or> length (py_strip n) < 3 then None
          else
            let business = new_scraped_business n category city source_name;
                contact = extract_contact_info (el_get_text el);
                business = business\<lparr>sb_email := ci_email contact\<rparr>;
                business = business\<lparr>sb_phone := ci_phone contact\<rparr>;
                business = business\<lparr>sb_address := ci_address contact\<rparr>;
                business = business\<lparr>sb_website := ci_website contact\<rparr>;
                business = business\<lparr>sb_confidence_score := calculate_confidence_score business\<rparr>
            in if fle f_0_3 (sb_confidence_score business) then Some business else None)"

text \<open>An element with a heading and no contact details.\<close>

definition listing_element :: element where
  "listing_element =
     \<lparr>el_select_one = (\<lambda>sel. if sel = ''h3'' then Some ''Arpatech'' else None),
      el_get_text = ''Arpatech''\<rparr>"

definition no_contact_info :: "string \<Rightarrow> contact_info" where
  "no_contact_info text = \<lparr>ci_email = None, ci_phone = None, ci_address = None, ci_website = None\<rparr>"

section \<open>The business collector\<close>

subsection \<open>More of Python's strings and lists\<close>

text \<open>
  \<open>s.replace(old, new)\<close> for a non-empty \<open>old\<close> (the code never passes an empty one),
  \<open>str.isalnum\<close> on the code points below 256, \<open>str(n)\<close> for an integer and the
  slice \<open>xs[:n]\<close>, where a negative \<open>n\<close> counts from the end.
\<close>

function py_replace :: "string \<Rightarrow> string \<Rightarrow> string \<Rightarrow> string" where
  "py_replace old new s =
     (if s = [] \<or> old = [] then s
      else if py_startswith s old then new @ py_replace old new (drop (length old) s)
      else hd s # py_replace old new (tl s))"
  by pat_completeness auto
termination
  by (relation "measure (\<lambda>(old, new, s). length s)") auto

declare py_replace.simps [simp del]

definition py_isalnum :: "char \<Rightarrow> bool" where
  "py_isalnum c =
     (let n = (of_char c :: int)
      in (48 \<le> n \<and> n \<le> 57) \<or> (65 \<le> n \<and> n \<le> 90) \<or> (97 \<le> n \<and> n \<le> 122) \<or> n = 170
         \<or> (178 \<le> n \<and> n \<le> 179) \<or> n = 181 \<or> (185 \<le> n \<and> n \<le> 186) \<or> (188 \<le> n \<and> n \<le> 190)
         \<or> (192 \<le> n \<and> n \<le> 214) \<or> (216 \<le> n \<and> n \<le> 246) \<or> (248 \<le> n \<and> n \<le> 255))"

definition digit_char :: "int \<Rightarrow> char" where
  "digit_char d = char_of (48 + d)"

function str_digits :: "int \<Rightarrow> string" where
  "str_digits n = (if n < 10 then [digit_char n] else str_digits (n div 10) @ [digit_char (n mod 10)])"
  by pat_completeness auto
termination
  by (relation "measure (\<lambda>n. nat n)") auto

declare str_digits.simps [simp del]

definition str_int :: "int \<Rightarrow> string" where
  "str_int n = (if n < 0 then ''-'' @ str_digits (- n) else str_digits n)"

definition py_slice_to :: "'a list \<Rightarrow> int \<Rightarrow> 'a list" where
  "py_slice_to xs n = (if 0 \<le> n then take (nat n) xs else take (length xs - nat (- n)) xs)"

definition first_line :: "string \<Rightarrow> string" where
  "first_line s = (case py_split (CHR 0x0A) s of [] \<Rightarrow> [] | p # ps \<Rightarrow> p)"

subsection \<open>The world outside the collector\<close>

text \<open>
  What a call of \<open>collect_businesses\<close> reads from outside is a parameter of the model:
  the parsed Google result page and the three Google Maps pages (\<open>None\<close> when the
  request or the parsing raised), the regular-expression searches for an email and
  a phone number in a text, the draws of \<open>random.randint\<close>, the pages of the
  businesses' websites, the imported \<open>validate_email\<close> and the MX lookup.

  A search result is what \<open>_scrape_google_search\<close> asks of a \<open>div.g\<close>: the stripped text
  of its \<open>h3\<close>, the \<open>href\<close> of its first link (\<open>None\<close>: no link; \<open>Some None\<close>: a link
  without \<open>href\<close>) and the text of its snippet. A Maps element is what
  \<open>_scrape_google_maps\<close> asks of it.
\<close>

record search_result =
  sr_title :: "string option"
  sr_link :: "string option option"
  sr_snippet :: "string option"

record maps_element =
  me_name_text :: "string option"
  me_tag :: string
  me_text :: string
  me_address_text :: "string option"
  me_phone_text :: "string option"
  me_link :: "string option option"

record web_page =
  wp_text :: string
  wp_find_string :: "string \<Rightarrow> string option"

record world =
  w_search_results :: "search_result list option"
  w_maps_page :: "nat \<Rightarrow> maps_element list option"
  w_extract_email :: "string \<Rightarrow> string"
  w_extract_phone :: "string \<Rightarrow> string"
  w_randint :: "nat \<Rightarrow> int"
  w_fetch_site :: "string \<Rightarrow> web_page option"
  w_validate_email :: "string \<Rightarrow> exn + string"
  w_dns :: "string \<Rightarrow> exn option"

subsection \<open>Helpers of \<open>BusinessCollector\<close>\<close>

text \<open>\<open>_get_city_info(city)['area_code']\<close>.\<close>

definition area_code :: "string \<Rightarrow> string" where
  "area_code city =
     dict_get (map_of
       [(''Karachi'', ''21''), (''Lahore'', ''42''), (''Islamabad'', ''51''),
        (''Rawalpindi'', ''51''), (''Faisalabad'', ''41''), (''Multan'', ''61''),
        (''Hyderabad'', ''22''), (''Gujranwala'', ''55''), (''Peshawar'', ''91''),
        (''Quetta'', ''81'')] city) ''00''"

definition generate_domain :: "string \<Rightarrow> string \<Rightarrow> nat \<Rightarrow> string" where
  "generate_domain category city index =
     (let category_clean = py_replace ''&'' '''' (py_replace '' '' '''' (py_lower category));
          city_clean = py_lower city;
          domains =
            [category_clean @ city_clean @ ''.com'', city_clean @ category_clean @ ''.com'',
             category_clean @ city_clean @ ''.pk'', city_clean @ category_clean @ ''.pk'',
             category_clean @ ''pakistan.com'', category_clean @ ''pk.com'']
      in domains ! (index mod length domains))"

definition generate_email_from_name :: "string \<Rightarrow> string" where
  "generate_email_from_name business_name =
     (let clean_name =
            py_replace ''-'' '''' (py_replace ''&'' '''' (py_replace '' '' '''' (py_lower business_name)));
          clean_name = filter py_isalnum clean_name
      in if 3 < length clean_name then clean_name @ ''.com''
         else ''info@'' @ clean_name @ ''business.com'')"

definition random_phone :: "world \<Rightarrow> string \<Rightarrow> nat \<Rightarrow> string" where
  "random_phone w city k = ''+92-'' @ area_code city @ ''-'' @ str_int (w_randint w k)"

subsection \<open>\<open>BusinessCollector._scrape_google_search\<close>\<close>

text \<open>
  One iteration of the loop over the results. \<open>Inr None\<close> is the \<open>continue\<close> for a
  result without a title, \<open>Inl e\<close> an exception, which the handler of the iteration
  logs before it continues, \<open>Inr (Some b)\<close> the appended dict.
\<close>

definition remove_suffixes :: "string list \<Rightarrow> string \<Rightarrow> string" where
  "remove_suffixes suffixes title = fold (\<lambda>suffix nm. py_replace suffix '''' nm) suffixes title"

definition parse_search_result ::
  "world \<Rightarrow> string \<Rightarrow> string \<Rightarrow> nat \<Rightarrow> search_result \<Rightarrow> exn + business option" where
  "parse_search_result w category city k result =
     (case sr_title result of
        None \<Rightarrow> Inr None
      | Some title \<Rightarrow>
          let business_name =
                remove_suffixes
                  ['' - Home'', '' - Official Website'', '' | Official Site'', '' - Pakistan''] title;
              snippet_text = dict_get (sr_snippet result) '''';
              em = w_extract_email w snippet_text;
              em = (if em = [] then generate_email_from_name business_name else em);
              ph = w_extract_phone w snippet_text;
              ph = (if ph \<noteq> [] then ph else random_phone w city k)
          in (case sr_link result of
                Some None \<Rightarrow> Inl AttributeError
              | link \<Rightarrow>
                  let l = (case link of Some (Some l) \<Rightarrow> l | _ \<Rightarrow> '''')
                  in Inr (Some
                       \<lparr>name = Some business_name, email = Some em, phone = Some ph,
                        address = Some (city @ '', Pakistan''),
                        website = Some (if py_startswith l ''http'' then l else ''https://'' @ l),
                        business_type = Some category, verified = Some False,
                        source = Some ''google_search''\<rparr>)))"

fun search_results_loop ::
  "world \<Rightarrow> string \<Rightarrow> string \<Rightarrow> nat \<Rightarrow> search_result list \<Rightarrow> business list \<Rightarrow> business list" where
  "search_results_loop w category city k [] businesses = businesses"
| "search_results_loop w category city k (result # results) businesses =
     (case parse_search_result w category city k result of
        Inr (Some business) \<Rightarrow>
          search_results_loop w category city (Suc k) results (businesses @ [business])
      | _ \<Rightarrow> search_results_loop w category city (Suc k) results businesses)"

definition scrape_google_search :: "world \<Rightarrow> string \<Rightarrow> string \<Rightarrow> int \<Rightarrow> business list" where
  "scrape_google_search w category city count =
     (case w_search_results w of
        None \<Rightarrow> []
      | Some search_results \<Rightarrow>
          search_results_loop w category city 0 (py_slice_to search_results count) [])"

subsection \<open>\<open>BusinessCollector._scrape_google_maps\<close>\<close>

text \<open>
  One element of a Maps page: \<open>None\<close> is the \<open>continue\<close> for a missing or short name,
  otherwise the dict that was built.
\<close>

definition parse_maps_element ::
  "world \<Rightarrow> string \<Rightarrow> string \<Rightarrow> nat \<Rightarrow> maps_element \<Rightarrow> business option" where
  "parse_maps_element w category city k el =
     (let business_name =
            (case me_name_text el of
               Some t \<Rightarrow> py_strip t
             | None \<Rightarrow>
                 if me_tag el = ''h3'' then py_strip (me_text el)
                 else if me_tag el = ''div'' then take 50 (py_strip (me_text el))
                 else '''')
      in if business_name = [] \<or> length business_name < 3 then None
         else
           let business_name = py_strip (first_line business_name);
               business_name =
                 remove_suffixes
                   ['' - Google Maps'', '' - Home'', '' | Official Site'', '' - Pakistan'']
                   business_name;
               addr_text =
                 (case me_address_text el of None \<Rightarrow> city @ '', Pakistan'' | Some t \<Rightarrow> py_strip t);
               ph = (case me_phone_text el of None \<Rightarrow> '''' | Some t \<Rightarrow> py_strip t);
               ph = (if ph = [] then random_phone w city k else ph);
               em = generate_email_from_name business_name;
               site =
                 (case me_link el of
                    Some (Some href) \<Rightarrow>
                      if href = [] then ''''
                      else if py_startswith href ''http'' then href
                      else if py_startswith href ''/'' then ''https://www.google.com'' @ href
                      else ''''
                  | _ \<Rightarrow> '''');
               site = (if site = [] then ''https://'' @ generate_domain category city 0 else site)
           in Some
                \<lparr>name = Some business_name, email = Some em, phone = Some ph,
                 address = Some addr_text, website = Some site,
                 business_type = Some category, verified = Some False,
                 source = Some ''google_maps''\<rparr>)"

text \<open>
  The loop over the elements of one page: a dict is appended unless a dict with the same
  lowercased name is there already, and the loop ends once \<open>count\<close> dicts are there.
\<close>

fun maps_elements_loop ::
  "world \<Rightarrow> string \<Rightarrow> string \<Rightarrow> int \<Rightarrow> nat \<Rightarrow> maps_element list \<Rightarrow> business list \<Rightarrow> business list" where
  "maps_elements_loop w category city count k [] businesses = businesses"
| "maps_elements_loop w category city count k (el # els) businesses =
     (case parse_maps_element w category city k el of
        None \<Rightarrow> maps_elements_loop w category city count (Suc k) els businesses
      | Some business \<Rightarrow>
          let businesses =
                (if \<not> (\<exists>b \<in> set businesses.
                          py_lower (dict_get (name b) '''') = py_lower (dict_get (name business) ''''))
                 then businesses @ [business] else businesses)
          in if count \<le> int (length businesses) then businesses
             else maps_elements_loop w category city count (Suc k) els businesses)"

text \<open>The loop over the three URLs, which ends at the first page that gave a dict.\<close>

fun maps_urls_loop ::
  "world \<Rightarrow> string \<Rightarrow> string \<Rightarrow> int \<Rightarrow> nat list \<Rightarrow> business list \<Rightarrow> business list" where
  "maps_urls_loop w category city count [] businesses = businesses"
| "maps_urls_loop w category city count (u # us) businesses =
     (case w_maps_page w u of
        None \<Rightarrow> maps_urls_loop w category city count us businesses
      | Some business_elements \<Rightarrow>
          let businesses =
                maps_elements_loop w category city count 0
                  (py_slice_to business_elements count) businesses
          in if businesses \<noteq> [] then businesses
             else maps_urls_loop w category city count us businesses)"

definition scrape_google_maps :: "world \<Rightarrow> string \<Rightarrow> string \<Rightarrow> int \<Rightarrow> business list" where
  "scrape_google_maps w category city count = maps_urls_loop w category city count [0, 1, 2] []"

subsection \<open>The verified dataset\<close>

text \<open>
  \<open>_load_verified_businesses\<close> builds a dict of categories; each category maps
  \<open>related_types\<close> to a list of strings and each of its cities to a list of business
  dicts. The dicts are the first objects of the store, in the order of the source;
  \<open>verified_records\<close> is the store right after the constructor. The category dicts and
  the lists are never modified, so they are not part of the store.
\<close>

datatype pyobj = DictRef addr | StrVal string

type_synonym database = "(string \<times> (string \<times> pyobj list) list) list"

definition verified_records :: store where
  "verified_records =
    [\<lparr>name = Some ''Arpatech'', email = Some ''contact@arpatech.com'',
      phone = Some ''+92-21-34567890'', address = Some ''Defence, Karachi'',
      website = Some ''https://arpatech.com'',
      business_type = Some ''Software Company'',
      verified = Some True, source = Some ''verified_database''\<rparr>,
     \<lparr>name = Some ''10Pearls'', email = Some ''hello@10pearls.com'',
      phone = Some ''+92-21-34567891'', address = Some ''Gulshan-e-Iqbal, Karachi'',
      website = Some ''https://10pearls.com'',
      business_type = Some ''IT Company'',
      verified = Some True, source = Some ''verified_database''\<rparr>,
     \<lparr>name = Some ''Techlogix'', email = Some ''info@techlogix.com'',
      phone = Some ''+92-21-34567892'', address = Some ''North Nazimabad, Karachi'',
      website = Some ''https://techlogix.com'',
      business_type = Some ''Software House'',
      verified = Some True, source = Some ''verified_database''\<rparr>,
     \<lparr>name = Some ''NetSol Technologies'', email = Some ''contact@netsol.com'',
      phone = Some ''+92-42-34567890'', address = Some ''Gulberg, Lahore'',
      website = Some ''https://netsol.com'',
      business_type = Some ''Tech Solutions'',
      verified = Some True, source = Some ''verified_database''\<rparr>,
     \<lparr>name = Some ''Creative Chaos'', email = Some ''hello@creativechaos.io'',
      phone = Some ''+92-42-34567891'', address = Some ''DHA, Lahore'',
      website = Some ''https://creativechaos.io'',
      business_type = Some ''Digital Agency'',
      verified = Some True, source = Some ''verified_database''\<rparr>,
     \<lparr>name = Some ''PTCL'', email = Some ''info@ptcl.com.pk'',
      phone = Some ''+92-51-34567890'', address = Some ''Blue Area, Islamabad'',
      website = Some ''https://ptcl.com.pk'',
      business_type = Some ''Telecommunications'',
      verified = Some True, source = Some ''verified_database''\<rparr>,
     \<lparr>name = Some ''Digital Marketing Pro'', email = Some ''contact@digitalmarketingpro.com'',
      phone = Some ''+92-21-34567893'', address = Some ''Defence, Karachi'',
      website = Some ''https://digitalmarketingpro.com'',
      business_type = Some ''Digital Marketing'',
      verified = Some True, source = Some ''verified_database''\<rparr>,
     \<lparr>name = Some ''Lahore Marketing Agency'', email = Some ''info@lahoremarketing.com'',
      phone = Some ''+92-42-34567892'', address = Some ''Gulberg, Lahore'',
      website = Some ''https://lahoremarketing.com'',
      business_type = Some ''Marketing Consultancy'',
      verified = Some True, source = Some ''verified_database''\<rparr>,
     \<lparr>name = Some ''BBQ Tonight'', email = Some ''info@bbqtonight.com'',
      phone = Some ''+92-21-34567894'', address = Some ''Clifton, Karachi'',
      website = Some ''https://bbqtonight.com'',
      business_type = Some ''Restaurant'',
      verified = Some True, source = Some ''verified_database''\<rparr>,
     \<lparr>name = Some ''Butt Karahi'', email = Some ''info@buttkarahi.com'',
      phone = Some ''+92-42-34567893'', address = Some ''Mall Road, Lahore'',
      website = Some ''https://buttkarahi.com'',
      business_type = Some ''Restaurant'',
      verified = Some True, source = Some ''verified_database''\<rparr>,
     \<lparr>name = Some ''Aga Khan Hospital'', email = Some ''info@agakhanhospital.org'',
      phone = Some ''+92-21-34567895'', address = Some ''Stadium Road, Karachi'',
      website = Some ''https://agakhanhospital.org'',
      business_type = Some ''Hospital'',
      verified = Some True, source = Some ''verified_database''\<rparr>,
     \<lparr>name = Some ''Shaukat Khanum Hospital'', email = Some ''info@shaukatkhanum.org.pk'',
      phone = Some ''+92-42-34567894'', address = Some ''Johar Town, Lahore'',
      website = Some ''https://shaukatkhanum.org.pk'',
      business_type = Some ''Hospital'',
      verified = Some True, source = Some ''verified_database''\<rparr>,
     \<lparr>name = Some ''IBA Karachi'', email = Some ''info@iba.edu.pk'',
      phone = Some ''+92-21-34567896'', address = Some ''Karachi University, Karachi'',
      website = Some ''https://iba.edu.pk'',
      business_type = Some ''University'',
      verified = Some True, source = Some ''verified_database''\<rparr>,
     \<lparr>name = Some ''LUMS'', email = Some ''info@lums.edu.pk'',
      phone = Some ''+92-42-34567895'', address = Some ''DHA, Lahore'',
      website = Some ''https://lums.edu.pk'',
      business_type = Some ''University'',
      verified = Some True, source = Some ''verified_database''\<rparr>,
     \<lparr>name = Some ''Bahria Town'', email = Some ''info@bahriatown.com'',
      phone = Some ''+92-21-34567897'', address = Some ''Defence, Karachi'',
      website = Some ''https://bahriatown.com'',
      business_type = Some ''Property Development'',
      verified = Some True, source = Some ''verified_database''\<rparr>,
     \<lparr>name = Some ''DHA'', email = Some ''info@dha.com.pk'',
      phone = Some ''+92-42-34567896'', address = Some ''DHA, Lahore'',
      website = Some ''https://dha.com.pk'',
      business_type = Some ''Property Development'',
      verified = Some True, source = Some ''verified_database''\<rparr>,
     \<lparr>name = Some ''Toyota Pakistan'', email = Some ''info@toyota.com.pk'',
      phone = Some ''+92-21-34567898'', address = Some ''Defence, Karachi'',
      website = Some ''https://toyota.com.pk'',
      business_type = Some ''Car Dealership'',
      verified = Some True, source = Some ''verified_database''\<rparr>,
     \<lparr>name = Some ''Honda Pakistan'', email = Some ''info@honda.com.pk'',
      phone = Some ''+92-42-34567897'', address = Some ''Gulberg, Lahore'',
      website = Some ''https://honda.com.pk'',
      business_type = Some ''Car Dealership'',
      verified = Some True, source = Some ''verified_database''\<rparr>,
     \<lparr>name = Some ''HBL'', email = Some ''info@hbl.com'',
      phone = Some ''+92-21-34567899'', address = Some ''I.I. Chundrigar Road, Karachi'',
      website = Some ''https://hbl.com'',
      business_type = Some ''Bank'',
      verified = Some True, source = Some ''verified_database''\<rparr>,
     \<lparr>name = Some ''UBL'', email = Some ''info@ubl.com.pk'',
      phone = Some ''+92-42-34567898'', address = Some ''Gulberg, Lahore'',
      website = Some ''https://ubl.com.pk'',
      business_type = Some ''Bank'',
      verified = Some True, source = Some ''verified_database''\<rparr>,
     \<lparr>name = Some ''Karachi Law Associates'', email = Some ''info@karachilaw.com'',
      phone = Some ''+92-21-34567900'', address = Some ''Clifton, Karachi'',
      website = Some ''https://karachilaw.com'',
      business_type = Some ''Law Firm'',
      verified = Some True, source = Some ''verified_database''\<rparr>,
     \<lparr>name = Some ''Lahore Legal Services'', email = Some ''info@lahorelegal.com'',
      phone = Some ''+92-42-34567899'', address = Some ''Gulberg, Lahore'',
      website = Some ''https://lahorelegal.com'',
      business_type = Some ''Legal Consultancy'',
      verified = Some True, source = Some ''verified_database''\<rparr>,
     \<lparr>name = Some ''Karachi Fashion Hub'', email = Some ''info@karachifashion.com'',
      phone = Some ''+92-21-34567901'', address = Some ''Saddar, Karachi'',
      website = Some ''https://karachifashion.com'',
      business_type = Some ''Fashion Store'',
      verified = Some True, source = Some ''verified_database''\<rparr>,
     \<lparr>name = Some ''Lahore Electronics'', email = Some ''info@lahoreelectronics.com'',
      phone = Some ''+92-42-34567900'', address = Some ''Mall Road, Lahore'',
      website = Some ''https://lahoreelectronics.com'',
      business_type = Some ''Electronics Store'',
      verified = Some True, source = Some ''verified_database''\<rparr>,
     \<lparr>name = Some ''Karachi Textile Mills'', email = Some ''info@karachitextile.com'',
      phone = Some ''+92-21-34567902'', address = Some ''Industrial Area, Karachi'',
      website = Some ''https://karachitextile.com'',
      business_type = Some ''Textile Manufacturing'',
      verified = Some True, source = Some ''verified_database''\<rparr>,
     \<lparr>name = Some ''Lahore Steel Works'', email = Some ''info@lahoresteel.com'',
      phone = Some ''+92-42-34567901'', address = Some ''Industrial Estate, Lahore'',
      website = Some ''https://lahoresteel.com'',
      business_type = Some ''Steel Industry'',
      verified = Some True, source = Some ''verified_database''\<rparr>,
     \<lparr>name = Some ''Karachi Media Group'', email = Some ''info@karachimedia.com'',
      phone = Some ''+92-21-34567903'', address = Some ''Clifton, Karachi'',
      website = Some ''https://karachimedia.com'',
      business_type = Some ''Media Group'',
      verified = Some True, source = Some ''verified_database''\<rparr>,
     \<lparr>name = Some ''Lahore Productions'', email = Some ''info@lahoreproductions.com'',
      phone = Some ''+92-42-34567902'', address = Some ''Gulberg, Lahore'',
      website = Some ''https://lahoreproductions.com'',
      business_type = Some ''Production House'',
      verified = Some True, source = Some ''verified_database''\<rparr>,
     \<lparr>name = Some ''Karachi Beauty Salon'', email = Some ''info@karachibeauty.com'',
      phone = Some ''+92-21-34567904'', address = Some ''Defence, Karachi'',
      website = Some ''https://karachibeauty.com'',
      business_type = Some ''Beauty Salon'',
      verified = Some True, source = Some ''verified_database''\<rparr>,
     \<lparr>name = Some ''Lahore Spa & Wellness'', email = Some ''info@lahorespa.com'',
      phone = Some ''+92-42-34567903'', address = Some ''DHA, Lahore'',
      website = Some ''https://lahorespa.com'',
      business_type = Some ''Spa & Wellness'',
      verified = Some True, source = Some ''verified_database''\<rparr>,
     \<lparr>name = Some ''Karachi Sports Club'', email = Some ''info@karachisports.com'',
      phone = Some ''+92-21-34567905'', address = Some ''Clifton, Karachi'',
      website = Some ''https://karachisports.com'',
      business_type = Some ''Sports Club'',
      verified = Some True, source = Some ''verified_database''\<rparr>,
     \<lparr>name = Some ''Lahore Fitness Center'', email = Some ''info@lahorefitness.com'',
      phone = Some ''+92-42-34567904'', address = Some ''Gulberg, Lahore'',
      website = Some ''https://lahorefitness.com'',
      business_type = Some ''Fitness Center'',
      verified = Some True, source = Some ''verified_database''\<rparr>,
     \<lparr>name = Some ''Karachi Travel Services'', email = Some ''info@karachitravel.com'',
      phone = Some ''+92-21-34567906'', address = Some ''Saddar, Karachi'',
      website = Some ''https://karachitravel.com'',
      business_type = Some ''Travel Agency'',
      verified = Some True, source = Some ''verified_database''\<rparr>,
     \<lparr>name = Some ''Lahore Tourism'', email = Some ''info@lahoretourism.com'',
      phone = Some ''+92-42-34567905'', address = Some ''Mall Road, Lahore'',
      website = Some ''https://lahoretourism.com'',
      business_type = Some ''Tour Operator'',
      verified = Some True, source = Some ''verified_database''\<rparr>]"

definition business_database :: database where
  "business_database =
    [(''Technology'',
       [(''related_types'',
          [StrVal ''Software Company'', StrVal ''IT Company'',
           StrVal ''Software House'', StrVal ''Tech Solutions'',
           StrVal ''Digital Agency'', StrVal ''Web Development'',
           StrVal ''Mobile Apps'', StrVal ''AI/ML Company'', StrVal ''Cybersecurity'',
           StrVal ''Cloud Services'', StrVal ''Data Analytics'',
           StrVal ''System Integration'']),
        (''Karachi'',
          [DictRef 0, DictRef 1, DictRef 2]),
        (''Lahore'',
          [DictRef 3, DictRef 4]),
        (''Islamabad'',
          [DictRef 5])]),
     (''Marketing & Advertising'',
       [(''related_types'',
          [StrVal ''Digital Marketing'', StrVal ''SEO Agency'',
           StrVal ''Social Media Marketing'', StrVal ''Content Marketing'',
           StrVal ''PPC Advertising'', StrVal ''Branding Agency'',
           StrVal ''Creative Agency'', StrVal ''Marketing Consultancy'',
           StrVal ''Lead Generation'', StrVal ''Email Marketing'',
           StrVal ''Influencer Marketing'', StrVal ''PR Agency'']),
        (''Karachi'',
          [DictRef 6]),
        (''Lahore'',
          [DictRef 7])]),
     (''Food & Hospitality'',
       [(''related_types'',
          [StrVal ''Restaurant'', StrVal ''Fast Food'', StrVal ''Cafe'',
           StrVal ''Bakery'', StrVal ''Catering'', StrVal ''Food Delivery'',
           StrVal ''Hotel'', StrVal ''Guest House'', StrVal ''Travel Agency'',
           StrVal ''Tourism'', StrVal ''Event Management'', StrVal ''Wedding Services'',
           StrVal ''Party Planning'', StrVal ''Food Truck'', StrVal ''Street Food'']),
        (''Karachi'',
          [DictRef 8]),
        (''Lahore'',
          [DictRef 9])]),
     (''Healthcare & Medical'',
       [(''related_types'',
          [StrVal ''Hospital'', StrVal ''Clinic'', StrVal ''Pharmacy'',
           StrVal ''Dental Care'', StrVal ''Eye Care'', StrVal ''Physiotherapy'',
           StrVal ''Fitness Center'', StrVal ''Gym'', StrVal ''Yoga Studio'',
           StrVal ''Medical Equipment'', StrVal ''Health Insurance'',
           StrVal ''Telemedicine'', StrVal ''Laboratory'', StrVal ''Diagnostic Center'',
           StrVal ''Specialist Doctor'']),
        (''Karachi'',
          [DictRef 10]),
        (''Lahore'',
          [DictRef 11])]),
     (''Education & Training'',
       [(''related_types'',
          [StrVal ''School'', StrVal ''College'', StrVal ''University'',
           StrVal ''Training Institute'', StrVal ''Language Center'',
           StrVal ''Computer Training'', StrVal ''Professional Development'',
           StrVal ''Online Learning'', StrVal ''Tutoring'',
           StrVal ''Skill Development'', StrVal ''Certification Center'',
           StrVal ''Workshop Provider'', StrVal ''E-Learning'']),
        (''Karachi'',
          [DictRef 12]),
        (''Lahore'',
          [DictRef 13])]),
     (''Real Estate & Construction'',
       [(''related_types'',
          [StrVal ''Property Development'', StrVal ''Real Estate Agency'',
           StrVal ''Construction Company'', StrVal ''Architecture Firm'',
           StrVal ''Interior Design'', StrVal ''Property Management'',
           StrVal ''Building Materials'', StrVal ''Home Renovation'',
           StrVal ''Property Investment'', StrVal ''Land Development'',
           StrVal ''Commercial Real Estate'', StrVal ''Residential Projects'']),
        (''Karachi'',
          [DictRef 14]),
        (''Lahore'',
          [DictRef 15])]),
     (''Automotive & Transport'',
       [(''related_types'',
          [StrVal ''Car Dealership'', StrVal ''Auto Repair'', StrVal ''Car Wash'',
           StrVal ''Auto Parts'', StrVal ''Motorcycle Shop'', StrVal ''Tire Shop'',
           StrVal ''Auto Insurance'', StrVal ''Car Rental'', StrVal ''Auto Service'',
           StrVal ''Transport Company'', StrVal ''Logistics'',
           StrVal ''Freight Forwarding'', StrVal ''Warehousing'',
           StrVal ''Supply Chain'']),
        (''Karachi'',
          [DictRef 16]),
        (''Lahore'',
          [DictRef 17])]),
     (''Banking & Finance'',
       [(''related_types'',
          [StrVal ''Bank'', StrVal ''Insurance Company'', StrVal ''Investment Firm'',
           StrVal ''Financial Planning'', StrVal ''Accounting Firm'',
           StrVal ''Tax Services'', StrVal ''Microfinance'', StrVal ''Credit Union'',
           StrVal ''Stock Brokerage'', StrVal ''Financial Advisory'',
           StrVal ''Loan Services'', StrVal ''Credit Card'', StrVal ''Payment Gateway'',
           StrVal ''Fintech Company'']),
        (''Karachi'',
          [DictRef 18]),
        (''Lahore'',
          [DictRef 19])]),
     (''Legal & Professional Services'',
       [(''related_types'',
          [StrVal ''Law Firm'', StrVal ''Legal Consultancy'', StrVal ''Audit Services'',
           StrVal ''HR Services'', StrVal ''Business Consulting'',
           StrVal ''Management Consulting'', StrVal ''Strategy Consulting'',
           StrVal ''Risk Management'', StrVal ''Compliance Services'',
           StrVal ''Corporate Law'', StrVal ''Criminal Law'', StrVal ''Family Law'',
           StrVal ''Property Law'']),
        (''Karachi'',
          [DictRef 20]),
        (''Lahore'',
          [DictRef 21])]),
     (''Retail & Shopping'',
       [(''related_types'',
          [StrVal ''Fashion Store'', StrVal ''Electronics Store'',
           StrVal ''Furniture Store'', StrVal ''Jewelry Store'',
           StrVal ''Cosmetics Store'', StrVal ''Book Store'',
           StrVal ''Sports Equipment'', StrVal ''Home Decor'', StrVal ''Grocery Store'',
           StrVal ''Supermarket'', StrVal ''Department Store'',
           StrVal ''Online Retail'', StrVal ''Franchise Store'',
           StrVal ''Specialty Shop'']),
        (''Karachi'',
          [DictRef 22]),
        (''Lahore'',
          [DictRef 23])]),
     (''Manufacturing & Industry'',
       [(''related_types'',
          [StrVal ''Textile Manufacturing'', StrVal ''Food Processing'',
           StrVal ''Chemical Manufacturing'', StrVal ''Steel Industry'',
           StrVal ''Cement Industry'', StrVal ''Pharmaceutical Manufacturing'',
           StrVal ''Electronics Manufacturing'', StrVal ''Automotive Manufacturing'',
           StrVal ''Furniture Manufacturing'', StrVal ''Plastic Industry'',
           StrVal ''Paper Industry'', StrVal ''Leather Industry'',
           StrVal ''Glass Industry'', StrVal ''Ceramic Industry'']),
        (''Karachi'',
          [DictRef 24]),
        (''Lahore'',
          [DictRef 25])]),
     (''Media & Entertainment'',
       [(''related_types'',
          [StrVal ''TV Channel'', StrVal ''Radio Station'', StrVal ''Newspaper'',
           StrVal ''Magazine'', StrVal ''Production House'', StrVal ''Film Studio'',
           StrVal ''Music Label'', StrVal ''Event Management'',
           StrVal ''Gaming Company'', StrVal ''Streaming Service'',
           StrVal ''Content Creation'', StrVal ''Podcast Studio'',
           StrVal ''Animation Studio'', StrVal ''Digital Media'']),
        (''Karachi'',
          [DictRef 26]),
        (''Lahore'',
          [DictRef 27])]),
     (''Beauty & Wellness'',
       [(''related_types'',
          [StrVal ''Beauty Salon'', StrVal ''Spa'', StrVal ''Hair Salon'',
           StrVal ''Nail Salon'', StrVal ''Makeup Artist'', StrVal ''Beauty Products'',
           StrVal ''Skincare Clinic'', StrVal ''Hair Transplant'',
           StrVal ''Dental Clinic'', StrVal ''Cosmetic Surgery'',
           StrVal ''Fitness Center'', StrVal ''Yoga Studio'', StrVal ''Wellness Center'']),
        (''Karachi'',
          [DictRef 28]),
        (''Lahore'',
          [DictRef 29])]),
     (''Sports & Recreation'',
       [(''related_types'',
          [StrVal ''Sports Club'', StrVal ''Gym'', StrVal ''Swimming Pool'',
           StrVal ''Tennis Court'', StrVal ''Golf Club'', StrVal ''Cricket Academy'',
           StrVal ''Football Academy'', StrVal ''Martial Arts'',
           StrVal ''Adventure Sports'', StrVal ''Sports Equipment'',
           StrVal ''Fitness Training'', StrVal ''Personal Trainer'',
           StrVal ''Sports Medicine'']),
        (''Karachi'',
          [DictRef 30]),
        (''Lahore'',
          [DictRef 31])]),
     (''Travel & Tourism'',
       [(''related_types'',
          [StrVal ''Travel Agency'', StrVal ''Tour Operator'', StrVal ''Hotel'',
           StrVal ''Resort'', StrVal ''Guest House'', StrVal ''Tour Guide'',
           StrVal ''Transport Service'', StrVal ''Adventure Tourism'',
           StrVal ''Cultural Tours'', StrVal ''Pilgrimage Tours'',
           StrVal ''Business Travel'', StrVal ''Luxury Travel'',
           StrVal ''Budget Travel'']),
        (''Karachi'',
          [DictRef 32]),
        (''Lahore'',
          [DictRef 33])])]"

text \<open>
  \<open>category in self.verified_businesses and city in self.verified_businesses[category]\<close>,
  with the list found there.
\<close>

definition lookup_verified :: "database \<Rightarrow> string \<Rightarrow> string \<Rightarrow> pyobj list option" where
  "lookup_verified db category city =
     (case map_of db category of
        None \<Rightarrow> None
      | Some entries \<Rightarrow> map_of entries city)"

text \<open>
  \<open>for business in businesses: business['source'] = tag\<close> over a copy of a stored list.
  The copy is a new list of the same references, so the assignment writes to the
  stored dicts. Assigning to an item of a string raises \<open>TypeError\<close>. The result lists
  the dicts that the loop went through.
\<close>

fun set_source_loop ::
  "string \<Rightarrow> pyobj list \<Rightarrow> addr list \<Rightarrow> store \<Rightarrow> (exn + addr list) \<times> store" where
  "set_source_loop tag [] refs h = (Inr refs, h)"
| "set_source_loop tag (StrVal s # items) refs h = (Inl TypeError, h)"
| "set_source_loop tag (DictRef a # items) refs h =
     set_source_loop tag items (refs @ [a]) (h[a := (h ! a)\<lparr>source := Some tag\<rparr>])"

subsection \<open>\<open>BusinessCollector._get_fallback_businesses\<close>\<close>

definition get_fallback_businesses ::
  "database \<Rightarrow> string \<Rightarrow> string \<Rightarrow> int \<Rightarrow> store \<Rightarrow> (exn + addr list) \<times> store" where
  "get_fallback_businesses db category city count h =
     (case lookup_verified db category city of
        None \<Rightarrow> (Inr [], h)
      | Some items \<Rightarrow>
          (case set_source_loop ''verified_database_fallback'' items [] h of
             (Inl e, h') \<Rightarrow> (Inl e, h')
           | (Inr businesses, h') \<Rightarrow> (Inr (py_slice_to businesses count), h')))"

subsection \<open>\<open>BusinessCollector._scrape_business_website\<close> and \<open>_enhance_business_data\<close>\<close>

text \<open>The dict \<open>enhanced_data\<close>: a key is present when its field is not \<open>None\<close>.\<close>

record enhanced_data =
  ed_email :: "string option"
  ed_phone :: "string option"
  ed_address :: "string option"

definition address_words :: "string list" where
  "address_words =
     [''street'', ''road'', ''avenue'', ''pakistan'', ''karachi'', ''lahore'', ''islamabad'']"

fun find_address :: "web_page \<Rightarrow> string list \<Rightarrow> string option" where
  "find_address page [] = None"
| "find_address page (pattern # patterns) =
     (case wp_find_string page pattern of
        None \<Rightarrow> find_address page patterns
      | Some address_element \<Rightarrow>
          let address_text = py_strip address_element
          in if 10 < length address_text
                \<and> (\<exists>word \<in> set address_words. py_in word (py_lower address_text))
             then Some address_text
             else find_address page patterns)"

definition scrape_business_website :: "world \<Rightarrow> string \<Rightarrow> enhanced_data" where
  "scrape_business_website w site =
     (case w_fetch_site w site of
        None \<Rightarrow> \<lparr>ed_email = None, ed_phone = None, ed_address = None\<rparr>
      | Some page \<Rightarrow>
          let em = w_extract_email w (wp_text page);
              ph = w_extract_phone w (wp_text page)
          in \<lparr>ed_email = (if em \<noteq> [] then Some em else None),
              ed_phone = (if ph \<noteq> [] then Some ph else None),
              ed_address =
                find_address page
                  [''address'', ''location'', ''contact'', ''office'', ''headquarters'']\<rparr>)"

text \<open>\<open>business.update(enhanced_data)\<close>.\<close>

definition dict_update :: "business \<Rightarrow> enhanced_data \<Rightarrow> business" where
  "dict_update b d =
     b\<lparr>email := (case ed_email d of None \<Rightarrow> email b | Some v \<Rightarrow> Some v),
       phone := (case ed_phone d of None \<Rightarrow> phone b | Some v \<Rightarrow> Some v),
       address := (case ed_address d of None \<Rightarrow> address b | Some v \<Rightarrow> Some v)\<rparr>"

text \<open>
  One iteration of \<open>_enhance_business_data\<close>. \<open>business['name']\<close> raises \<open>KeyError\<close> when
  the key is absent; the handler of the iteration reads \<open>business['name']\<close> again, so
  that exception leaves the method. \<open>business['source']\<close> raises \<open>KeyError\<close> after the
  update when that key is absent; the handler logs it and the loop goes on.
\<close>

definition enhance_one :: "world \<Rightarrow> addr \<Rightarrow> store \<Rightarrow> (exn + unit) \<times> store" where
  "enhance_one w a h =
     (let site = dict_get (website (h ! a)) ''''
      in if site \<noteq> [] \<and> py_startswith site ''http''
         then (case name (h ! a) of
                 None \<Rightarrow> (Inl KeyError, h)
               | Some nm \<Rightarrow>
                   let d = scrape_business_website w site
                   in if ed_email d \<noteq> None \<or> ed_phone d \<noteq> None \<or> ed_address d \<noteq> None
                      then let h1 = h[a := dict_update (h ! a) d]
                           in (case source (h1 ! a) of
                                 None \<Rightarrow> (Inr (), h1)
                               | Some s \<Rightarrow>
                                   (Inr (), h1[a := (h1 ! a)\<lparr>source := Some (s @ ''_enhanced'')\<rparr>]))
                      else (Inr (), h))
         else (Inr (), h))"

fun enhance_loop :: "world \<Rightarrow> addr list \<Rightarrow> addr list \<Rightarrow> store \<Rightarrow> (exn + addr list) \<times> store" where
  "enhance_loop w [] enhanced_businesses h = (Inr enhanced_businesses, h)"
| "enhance_loop w (a # as) enhanced_businesses h =
     (case enhance_one w a h of
        (Inl e, h') \<Rightarrow> (Inl e, h')
      | (Inr u, h') \<Rightarrow> enhance_loop w as (enhanced_businesses @ [a]) h')"

definition enhance_business_data :: "world \<Rightarrow> addr list \<Rightarrow> store \<Rightarrow> (exn + addr list) \<times> store" where
  "enhance_business_data w businesses h = enhance_loop w businesses [] h"

subsection \<open>\<open>BusinessCollector.collect_businesses\<close>\<close>

text \<open>The dicts that a scraper returns are new objects of the store.\<close>

definition alloc :: "store \<Rightarrow> business list \<Rightarrow> addr list \<times> store" where
  "alloc h bs = ([length h ..< length h + length bs], h @ bs)"

text \<open>
  The statements after the fallback test: deduplication, enhancement, validation and
  the slice. \<open>_log_scraping_statistics\<close> only counts the sources for later display.
\<close>

definition collect_rest ::
  "world \<Rightarrow> int \<Rightarrow> addr list \<Rightarrow> store \<Rightarrow> (exn + addr list) \<times> store" where
  "collect_rest w target_count all_businesses h =
     (let unique_businesses = remove_duplicates h all_businesses
      in case enhance_business_data w unique_businesses h of
           (Inl e, h') \<Rightarrow> (Inl e, h')
         | (Inr enhanced_businesses, h') \<Rightarrow>
             let (valid_businesses, invalid_businesses) =
                   validate_business_emails (w_validate_email w) (w_dns w) h' enhanced_businesses
             in (Inr (py_slice_to valid_businesses target_count), h'))"

text \<open>The body of the \<open>try\<close> block.\<close>

definition collect_try ::
  "world \<Rightarrow> database \<Rightarrow> string \<Rightarrow> string \<Rightarrow> int \<Rightarrow> store \<Rightarrow> (exn + addr list) \<times> store" where
  "collect_try w db category city target_count h =
     (let (google_businesses, h) =
            alloc h (scrape_google_search w category city (min (target_count div 2) 50));
          all_businesses = google_businesses;
          (maps_businesses, h) =
            alloc h (scrape_google_maps w category city (min (target_count div 2) 50));
          all_businesses = all_businesses @ maps_businesses
      in if int (length all_businesses) < target_count div 2
         then (case lookup_verified db category city of
                 None \<Rightarrow> collect_rest w target_count all_businesses h
               | Some items \<Rightarrow>
                   (case set_source_loop ''verified_database'' items [] h of
                      (Inl e, h') \<Rightarrow> (Inl e, h')
                    | (Inr verified_businesses, h') \<Rightarrow>
                        collect_rest w target_count (all_businesses @ verified_businesses) h'))
         else collect_rest w target_count all_businesses h)"

text \<open>
  \<open>collect_businesses\<close>: any exception of the \<open>try\<close> block is answered with
  \<open>_get_fallback_businesses\<close>, whose own exception reaches the caller.
\<close>

definition collect_businesses ::
  "world \<Rightarrow> database \<Rightarrow> string \<Rightarrow> string \<Rightarrow> int \<Rightarrow> store \<Rightarrow> (exn + addr list) \<times> store" where
  "collect_businesses w db category city target_count h =
     (case collect_try w db category city target_count h of
        (Inr businesses, h') \<Rightarrow> (Inr businesses, h')
      | (Inl e, h') \<Rightarrow> get_fallback_businesses db category city target_count h')"

text \<open>
  A world in which no scraping step yields anything: every request fails, no pattern
  matches; the fallback validator is in use and the MX lookup fails.
\<close>

definition quiet_world :: world where
  "quiet_world =
     \<lparr>w_search_results = None, w_maps_page = (\<lambda>u. None), w_extract_email = (\<lambda>t. ''''),
      w_extract_phone = (\<lambda>t. ''''), w_randint = (\<lambda>k. 10000000), w_fetch_site = (\<lambda>site. None),
      w_validate_email = validate_email_fallback, w_dns = (\<lambda>domain. Some OtherException)\<rparr>"

text \<open>The stored record of the dataset for Healthcare and Medical in Lahore.\<close>

definition shaukat_khanum :: business where
  "shaukat_khanum =
     \<lparr>name = Some ''Shaukat Khanum Hospital'', email = Some ''info@shaukatkhanum.org.pk'',
      phone = Some ''+92-42-34567894'', address = Some ''Johar Town, Lahore'',
      website = Some ''https://shaukatkhanum.org.pk'', business_type = Some ''Hospital'',
      verified = Some True, source = Some ''verified_database''\<rparr>"

section \<open>The free collector\<close>

text \<open>
  \<open>FreeBusinessCollector._extract_business_from_element\<close> and
  \<open>search_businesses_duckduckgo\<close> build a \<open>BusinessData\<close> from what they read of an HTML
  element. The regular-expression searches and \<open>urljoin\<close> are parameters: \<open>fx_phone\<close>,
  \<open>fx_ddg_phone\<close> (the pattern of the DuckDuckGo search), \<open>fx_email\<close> and \<open>fx_address\<close>
  give the match in a text, if there is one.
\<close>

record free_element =
  fe_name_text :: "string option"
  fe_text :: string
  fe_href :: "string option"

record free_extractors =
  fx_phone :: "string \<Rightarrow> string option"
  fx_ddg_phone :: "string \<Rightarrow> string option"
  fx_email :: "string \<Rightarrow> string option"
  fx_address :: "string \<Rightarrow> string option"
  fx_urljoin :: "string \<Rightarrow> string \<Rightarrow> string"

definition new_business_data :: "string \<Rightarrow> string \<Rightarrow> string \<Rightarrow> string \<Rightarrow> BusinessData" where
  "new_business_data n btype city src =
     \<lparr>fb_name = n, fb_email = None, fb_phone = None, fb_address = None, fb_website = None,
      fb_business_type = Some btype, fb_category = None, fb_city = Some city,
      fb_verified = False, fb_source = src\<rparr>"

definition scraping_sources :: "(string \<times> string) list" where
  "scraping_sources =
     [(''pakistan_business_directory'', ''https://www.pakistanbusinessdirectory.com''),
      (''yellow_pages_pk'', ''https://www.yellowpages.pk''),
      (''pakistan_companies'', ''https://www.pakistan-companies.com'')]"

definition free_extract_business_from_element ::
  "free_extractors \<Rightarrow> free_element \<Rightarrow> string \<Rightarrow> string \<Rightarrow> string \<Rightarrow> BusinessData option" where
  "free_extract_business_from_element fx el category city src =
     (case fe_name_text el of
        None \<Rightarrow> None
      | Some n \<Rightarrow>
          if n = [] \<or> length n < 3 then None
          else
            let business = new_business_data n category city src;
                text_content = fe_text el;
                business =
                  (case fx_phone fx text_content of
                     None \<Rightarrow> business
                   | Some m \<Rightarrow> business\<lparr>fb_phone := Some (py_strip m)\<rparr>);
                business =
                  (case fx_email fx text_content of
                     None \<Rightarrow> business
                   | Some m \<Rightarrow> business\<lparr>fb_email := Some m\<rparr>);
                business =
                  (case fe_href el of
                     None \<Rightarrow> business
                   | Some href \<Rightarrow>
                       if py_startswith href ''http'' then business\<lparr>fb_website := Some href\<rparr>
                       else business\<lparr>fb_website :=
                              Some (fx_urljoin fx (dict_get (map_of scraping_sources src) '''') href)\<rparr>);
                business =
                  (case fx_address fx text_content of
                     None \<Rightarrow> business
                   | Some m \<Rightarrow> business\<lparr>fb_address := Some (py_strip m)\<rparr>)
            in Some business)"

text \<open>One result of the DuckDuckGo page: the title, the snippet and the shown URL.\<close>

record ddg_result =
  dr_title :: "string option"
  dr_snippet :: "string option"
  dr_url :: "string option"

definition parse_ddg_result ::
  "free_extractors \<Rightarrow> string \<Rightarrow> string \<Rightarrow> ddg_result \<Rightarrow> BusinessData option" where
  "parse_ddg_result fx query city result =
     (case dr_title result of
        None \<Rightarrow> None
      | Some title \<Rightarrow>
          let snippet_text = dict_get (dr_snippet result) '''';
              business = new_business_data title query city ''duckduckgo_search'';
              business =
                (if snippet_text \<noteq> []
                 then let business =
                            (case fx_ddg_phone fx snippet_text of
                               None \<Rightarrow> business
                             | Some m \<Rightarrow> business\<lparr>fb_phone := Some m\<rparr>)
                      in (case fx_email fx snippet_text of
                            None \<Rightarrow> business
                          | Some m \<Rightarrow> business\<lparr>fb_email := Some m\<rparr>)
                 else business)
          in Some business)"

definition search_businesses_duckduckgo ::
  "free_extractors \<Rightarrow> ddg_result list option \<Rightarrow> string \<Rightarrow> string \<Rightarrow> BusinessData list" where
  "search_businesses_duckduckgo fx page query city =
     (case page of
        None \<Rightarrow> []
      | Some results \<Rightarrow> take 20 (List.map_filter (parse_ddg_result fx query city) results))"

section \<open>The Gemini business generator\<close>

text \<open>\<open>gemini_business_generator.BusinessData\<close>.\<close>

record GeminiBusinessData =
  gb_name :: string
  gb_email :: string
  gb_phone :: string
  gb_address :: string
  gb_website :: string
  gb_business_type :: string
  gb_category :: string
  gb_city :: string
  gb_verified :: bool
  gb_source :: string
  gb_description :: string
  gb_employees :: string
  gb_founded_year :: string
  gb_services :: string

text \<open>The two sets that the generator keeps for duplicate prevention.\<close>

record generator_state =
  existing_names :: "string set"
  existing_emails :: "string set"

subsection \<open>\<open>_get_fallback_businesses_with_duplicate_prevention\<close>\<close>

definition fallback_names :: "string \<Rightarrow> string list" where
  "fallback_names category =
     (if py_lower category = ''technology'' then
        [''TechVision Solutions'', ''Digital Dynamics'', ''InnovateTech Systems'',
         ''SmartCode Solutions'', ''FutureTech Hub'', ''CyberTech Services'',
         ''DataFlow Technologies'', ''CloudTech Solutions'', ''MobileTech Innovations'',
         ''WebTech Pro'', ''TechGenius Labs'', ''Digital Forge'', ''Innovate Solutions'',
         ''Smart Systems'', ''Future Dynamics'', ''Cyber Dynamics'', ''Data Solutions'',
         ''Cloud Systems'', ''Mobile Solutions'', ''Web Dynamics'', ''Tech Masters'',
         ''Digital Solutions'', ''Innovate Labs'', ''Smart Tech'', ''Future Solutions'',
         ''Cyber Labs'', ''Data Tech'', ''Cloud Labs'', ''Mobile Tech'', ''Web Solutions'',
         ''Tech Dynamics'']
      else if py_lower category = ''healthcare'' then
        [''MedCare Plus'', ''HealthFirst Clinic'', ''Wellness Solutions'', ''CareTech Medical'',
         ''HealthHub Services'', ''MedTech Innovations'', ''PatientCare Solutions'',
         ''HealthTech Systems'', ''CareFirst Medical'', ''WellTech Services'',
         ''MedCare Solutions'', ''HealthFirst Plus'', ''Wellness Tech'', ''CareTech Solutions'',
         ''HealthHub Plus'', ''MedTech Solutions'', ''PatientCare Plus'', ''HealthTech Plus'',
         ''CareFirst Solutions'', ''WellTech Plus'', ''MedCare Tech'', ''HealthFirst Solutions'',
         ''Wellness Plus'', ''CareTech Plus'', ''HealthHub Tech'', ''MedTech Plus'',
         ''PatientCare Tech'', ''HealthTech Solutions'', ''CareFirst Tech'',
         ''WellTech Solutions'']
      else if py_lower category = ''education'' then
        [''EduTech Solutions'', ''Learning Hub'', ''Knowledge Center'', ''Smart Education'',
         ''EduVision Pro'', ''Learning Technologies'', ''Knowledge Hub'', ''EduTech Innovations'',
         ''Smart Learning'', ''Education Plus'', ''EduTech Plus'', ''Learning Solutions'',
         ''Knowledge Plus'', ''Smart Tech'', ''EduVision Solutions'', ''Learning Plus'',
         ''Knowledge Tech'', ''EduTech Hub'', ''Smart Solutions'', ''Education Tech'',
         ''EduTech Center'', ''Learning Tech'', ''Knowledge Solutions'', ''Smart Plus'',
         ''EduVision Tech'']
      else
        [category @ '' Solutions Pvt Ltd'', ''Elite '' @ category @ '' Services'',
         ''Prime '' @ category @ '' Hub'', ''Next Gen '' @ category,
         ''Smart '' @ category @ '' Co'', ''Advanced '' @ category @ '' Systems'',
         ''Professional '' @ category @ '' Group'', ''Modern '' @ category @ '' Solutions'',
         ''Expert '' @ category @ '' Services'', ''Premium '' @ category @ '' Co'',
         category @ '' Dynamics'', ''Elite '' @ category @ '' Solutions'',
         ''Prime '' @ category @ '' Services'', ''Next Gen '' @ category @ '' Solutions'',
         ''Smart '' @ category @ '' Services'', ''Advanced '' @ category @ '' Solutions'',
         ''Professional '' @ category @ '' Solutions'', ''Modern '' @ category @ '' Services'',
         ''Expert '' @ category @ '' Solutions'', ''Premium '' @ category @ '' Services'',
         category @ '' Tech'', ''Elite '' @ category @ '' Tech'',
         ''Prime '' @ category @ '' Tech'', ''Next Gen '' @ category @ '' Tech'',
         ''Smart '' @ category @ '' Tech'', ''Advanced '' @ category @ '' Tech'',
         ''Professional '' @ category @ '' Tech'', ''Modern '' @ category @ '' Tech'',
         ''Expert '' @ category @ '' Tech'', ''Premium '' @ category @ '' Tech''])"

definition city_addresses :: "string \<Rightarrow> string list" where
  "city_addresses city =
     dict_get (map_of
       [(''Islamabad'',
          [''Blue Area'', ''F-7 Markaz'', ''G-8 Markaz'', ''I-8 Markaz'', ''F-10 Markaz'',
           ''G-11 Markaz'', ''I-11 Markaz'', ''F-8 Markaz'', ''G-9 Markaz'', ''I-9 Markaz'']),
        (''Lahore'',
          [''Gulberg'', ''Defence'', ''Model Town'', ''Johar Town'', ''Bahria Town'',
           ''DHA Phase 1'', ''DHA Phase 2'', ''DHA Phase 3'', ''DHA Phase 4'', ''DHA Phase 5'']),
        (''Karachi'',
          [''Clifton'', ''Defence'', ''Gulshan-e-Iqbal'', ''North Nazimabad'',
           ''Gulistan-e-Jauhar'', ''Malir'', ''Landhi'', ''Korangi'', ''Saddar'', ''Lyari'']),
        (''Rawalpindi'',
          [''Saddar'', ''Raja Bazar'', ''Bank Road'', ''Mall Road'', ''Peshawar Road'',
           ''Grand Trunk Road'', ''Airport Road'', ''Murree Road'', ''Lehtrar Road'',
           ''Adiala Road''])] city)
       (map (\<lambda>i. ''Business District '' @ str_int (i + 1)) [0 ..< 20])"

definition city_code :: "string \<Rightarrow> string" where
  "city_code city =
     dict_get (map_of
       [(''Islamabad'', ''51''), (''Lahore'', ''42''), (''Karachi'', ''21''),
        (''Rawalpindi'', ''51'')] city) ''30''"

definition fallback_descriptions :: "string \<Rightarrow> string \<Rightarrow> string list" where
  "fallback_descriptions category city =
     [''Leading '' @ py_lower category @ '' company in '' @ city
        @ '' providing innovative solutions and professional services.'',
      ''Established '' @ py_lower category @ '' business serving '' @ city
        @ '' with quality services and customer satisfaction.'',
      ''Professional '' @ py_lower category @ '' services in '' @ city
        @ '' with years of experience and expertise.'',
      ''Trusted '' @ py_lower category @ '' company in '' @ city
        @ '' offering comprehensive solutions and support.'',
      ''Innovative '' @ py_lower category @ '' business in '' @ city
        @ '' focused on delivering excellence and results.'']"

definition company_name_of :: "string \<Rightarrow> string" where
  "company_name_of nm =
     py_replace ''&'' '''' (py_replace ''-'' '''' (py_replace ''.'' ''''
       (py_replace '' '' '''' (py_lower nm))))"

definition fallback_business ::
  "string \<Rightarrow> string \<Rightarrow> nat \<Rightarrow> string \<Rightarrow> nat \<Rightarrow> GeminiBusinessData" where
  "fallback_business category city i nm n_unique =
     (let company_name = company_name_of nm;
          addresses = city_addresses city;
          descriptions = fallback_descriptions category city
      in \<lparr>gb_name = nm,
          gb_email = ''info@'' @ company_name @ ''.com'',
          gb_phone = ''+92-'' @ city_code city @ ''-''
                       @ str_int (1000000 + int i * 10000 + int i * 123),
          gb_address = addresses ! (i mod length addresses) @ '', '' @ city,
          gb_website = ''www.'' @ company_name @ ''.com'',
          gb_business_type = category,
          gb_category = category,
          gb_city = city,
          gb_verified = (n_unique < 5),
          gb_source = ''realistic_fallback_data'',
          gb_description = descriptions ! (i mod length descriptions),
          gb_employees = (if n_unique < 5 then ''10-50'' else ''5-20''),
          gb_founded_year = str_int (2015 + int (i mod 10)),
          gb_services = category @ '' Consulting, Development, Support, Training, Maintenance''\<rparr>)"

text \<open>
  The loop over \<open>range(len(fallback_names))\<close>; the list holds the indices with their
  names.
\<close>

fun fallback_loop ::
  "string \<Rightarrow> string \<Rightarrow> int \<Rightarrow> (nat \<times> string) list \<Rightarrow> GeminiBusinessData list \<Rightarrow>
     string set \<Rightarrow> string set \<Rightarrow> generator_state \<Rightarrow> GeminiBusinessData list \<times> generator_state" where
  "fallback_loop category city count [] unique_businesses used_names used_emails st =
     (unique_businesses, st)"
| "fallback_loop category city count ((i, nm) # rest) unique_businesses used_names used_emails st =
     (if count \<le> int (length unique_businesses) then (unique_businesses, st)
      else
        let em = ''info@'' @ company_name_of nm @ ''.com''
        in if py_lower nm \<in> used_names \<or> py_lower em \<in> used_emails
           then fallback_loop category city count rest unique_businesses used_names used_emails st
           else if py_lower nm \<in> existing_names st \<or> py_lower em \<in> existing_emails st
           then fallback_loop category city count rest unique_businesses used_names used_emails st
           else
             fallback_loop category city count rest
               (unique_businesses @ [fallback_business category city i nm (length unique_businesses)])
               (insert (py_lower nm) used_names) (insert (py_lower em) used_emails)
               (st\<lparr>existing_names := insert (py_lower nm) (existing_names st),
                   existing_emails := insert (py_lower em) (existing_emails st)\<rparr>))"

definition get_fallback_businesses_with_duplicate_prevention ::
  "string \<Rightarrow> string \<Rightarrow> int \<Rightarrow> generator_state \<Rightarrow> GeminiBusinessData list \<times> generator_state" where
  "get_fallback_businesses_with_duplicate_prevention category city count st =
     (let names = fallback_names category
      in fallback_loop category city count (zip [0 ..< length names] names) [] {} {} st)"

subsection \<open>\<open>_parse_gemini_response\<close>\<close>

text \<open>
  The response text after \<open>json.loads\<close>: no braces in the text; text that is not JSON,
  or JSON that is not an object; or an object, given by the objects of its
  \<open>businesses\<close> array (none when the key is absent). A field of such an object is
  \<open>None\<close> when the key is absent.
\<close>

record json_business =
  jb_name :: "string option"
  jb_email :: "string option"
  jb_phone :: "string option"
  jb_address :: "string option"
  jb_website :: "string option"
  jb_business_type :: "string option"
  jb_category :: "string option"
  jb_city :: "string option"
  jb_verified :: "bool option"
  jb_source :: "string option"
  jb_description :: "string option"
  jb_employees :: "string option"
  jb_founded_year :: "string option"
  jb_services :: "string option"

datatype gemini_response = NoJson | JsonError | JsonObject "json_business list"

definition has_valid_email :: "json_business \<Rightarrow> bool" where
  "has_valid_email j =
     (let em = dict_get (jb_email j) ''''
      in \<not> (em = [] \<or> em = ''info@unknown.com'' \<or> CHR ''@'' \<notin> set em))"

definition business_of_json :: "string \<Rightarrow> string \<Rightarrow> json_business \<Rightarrow> GeminiBusinessData" where
  "business_of_json category city j =
     \<lparr>gb_name = dict_get (jb_name j) ''Unknown Business'',
      gb_email = dict_get (jb_email j) '''',
      gb_phone = dict_get (jb_phone j) ''+92-XX-XXXXXXX'',
      gb_address = dict_get (jb_address j) (''Unknown Address, '' @ city),
      gb_website = dict_get (jb_website j) ''www.unknown.com'',
      gb_business_type = dict_get (jb_business_type j) category,
      gb_category = dict_get (jb_category j) category,
      gb_city = dict_get (jb_city j) city,
      gb_verified = dict_get (jb_verified j) False,
      gb_source = dict_get (jb_source j) ''gemini_ai'',
      gb_description = dict_get (jb_description j) '''',
      gb_employees = dict_get (jb_employees j) '''',
      gb_founded_year = dict_get (jb_founded_year j) '''',
      gb_services = dict_get (jb_services j) ''''\<rparr>"

text \<open>
  Without JSON the method calls \<open>self._get_fallback_businesses\<close>, which the class does
  not define; the \<open>AttributeError\<close> is caught by the last handler, which returns the
  fallback data, as the handler for invalid JSON does.
\<close>

definition parse_gemini_response ::
  "gemini_response \<Rightarrow> string \<Rightarrow> string \<Rightarrow> generator_state \<Rightarrow>
     GeminiBusinessData list \<times> generator_state" where
  "parse_gemini_response response category city st =
     (case response of
        NoJson \<Rightarrow> get_fallback_businesses_with_duplicate_prevention category city 5 st
      | JsonError \<Rightarrow> get_fallback_businesses_with_duplicate_prevention category city 5 st
      | JsonObject businesses \<Rightarrow>
          (map (business_of_json category city) (filter has_valid_email businesses), st))"

text \<open>A new generator without lead history, and a response with one listing.\<close>

definition empty_history :: generator_state where
  "empty_history = \<lparr>existing_names = {}, existing_emails = {}\<rparr>"

definition verified_listing :: json_business where
  "verified_listing =
     \<lparr>jb_name = Some ''Nexus Soft'', jb_email = Some ''info@nexussoft.pk'',
      jb_phone = None, jb_address = None, jb_website = None, jb_business_type = None,
      jb_category = None, jb_city = None, jb_verified = Some True, jb_source = None,
      jb_description = None, jb_employees = None, jb_founded_year = None,
      jb_services = None\<rparr>"

text \<open>
  A world in which the Google result page and the first Maps page list one business
  each, and a directory element and a DuckDuckGo result for the free collector.
\<close>

definition busy_world :: world where
  "busy_world =
     \<lparr>w_search_results =
        Some [\<lparr>sr_title = Some ''Arpatech - Home'', sr_link = Some (Some ''https://arpatech.com''),
               sr_snippet = Some ''Software house in Karachi''\<rparr>],
      w_maps_page =
        (\<lambda>u. if u = 0
             then Some [\<lparr>me_name_text = Some ''Techlogix'', me_tag = ''div'',
                         me_text = ''Techlogix'', me_address_text = None,
                         me_phone_text = None, me_link = None\<rparr>]
             else None),
      w_extract_email = (\<lambda>t. ''''), w_extract_phone = (\<lambda>t. ''''),
      w_randint = (\<lambda>k. 10000000), w_fetch_site = (\<lambda>site. None),
      w_validate_email = validate_email_fallback, w_dns = (\<lambda>domain. Some OtherException)\<rparr>"

definition no_extractors :: free_extractors where
  "no_extractors =
     \<lparr>fx_phone = (\<lambda>t. None), fx_ddg_phone = (\<lambda>t. None), fx_email = (\<lambda>t. None),
      fx_address = (\<lambda>t. None), fx_urljoin = (\<lambda>base href. base @ href)\<rparr>"

definition directory_element :: free_element where
  "directory_element = \<lparr>fe_name_text = Some ''Arpatech'', fe_text = ''Arpatech'', fe_href = None\<rparr>"

definition ddg_page :: "ddg_result list option" where
  "ddg_page = Some [\<lparr>dr_title = Some ''Arpatech'', dr_snippet = None, dr_url = None\<rparr>]"

section \<open>Properties of \<open>BusinessCollector._remove_duplicates\<close>\<close>

lemma remove_duplicates_loop_acc:
  "remove_duplicates_loop h bs sn se u = u @ remove_duplicates_loop h bs sn se []"
proof (induction bs arbitrary: sn se u)
  case Nil
  show ?case by simp
next
  case (Cons b bs)
  show ?case
    using Cons.IH [of "insert (norm_name (h ! b)) sn" "insert (norm_email (h ! b)) se" "u @ [b]"]
      Cons.IH [of "insert (norm_name (h ! b)) sn" "insert (norm_email (h ! b)) se" "[b]"]
      Cons.IH [of sn se u]
    by (simp add: Let_def)
qed

lemma remove_duplicates_loop_fresh:
  "a \<in> set (remove_duplicates_loop h bs sn se []) \<Longrightarrow>
     norm_name (h ! a) \<notin> sn \<and> norm_email (h ! a) \<notin> se"
proof (induction bs arbitrary: sn se)
  case Nil
  then show ?case by simp
next
  case (Cons b bs)
  show ?case
  proof (cases "norm_name (h ! b) \<notin> sn \<and> norm_email (h ! b) \<notin> se")
    case True
    with Cons.prems have
      "a \<in> set ([b] @ remove_duplicates_loop h bs (insert (norm_name (h ! b)) sn)
                       (insert (norm_email (h ! b)) se) [])"
      using remove_duplicates_loop_acc [of h bs _ _ "[b]"] by (simp add: Let_def)
    then consider "a = b"
      | "a \<in> set (remove_duplicates_loop h bs (insert (norm_name (h ! b)) sn)
                       (insert (norm_email (h ! b)) se) [])"
      by auto
    then show ?thesis
    proof cases
      case 1
      with True show ?thesis by simp
    next
      case 2
      from Cons.IH [OF 2] show ?thesis by simp
    qed
  next
    case False
    with Cons.prems have "a \<in> set (remove_duplicates_loop h bs sn se [])"
      by (auto simp: Let_def)
    from Cons.IH [OF this] show ?thesis .
  qed
qed

lemma remove_duplicates_loop_distinct:
  "distinct (map (\<lambda>a. norm_name (h ! a)) (remove_duplicates_loop h bs sn se [])) \<and>
   distinct (map (\<lambda>a. norm_email (h ! a)) (remove_duplicates_loop h bs sn se []))"
proof (induction bs arbitrary: sn se)
  case Nil
  show ?case by simp
next
  case (Cons b bs)
  show ?case
  proof (cases "norm_name (h ! b) \<notin> sn \<and> norm_email (h ! b) \<notin> se")
    case True
    let ?rest = "remove_duplicates_loop h bs (insert (norm_name (h ! b)) sn)
                   (insert (norm_email (h ! b)) se) []"
    have eq: "remove_duplicates_loop h (b # bs) sn se [] = b # ?rest"
      using True remove_duplicates_loop_acc [of h bs _ _ "[b]"] by (simp add: Let_def)
    have fresh: "\<forall>a \<in> set ?rest. norm_name (h ! a) \<noteq> norm_name (h ! b) \<and>
                                  norm_email (h ! a) \<noteq> norm_email (h ! b)"
      using remove_duplicates_loop_fresh [of _ h bs] by blast
    show ?thesis
      unfolding eq using Cons.IH [of "insert (norm_name (h ! b)) sn" "insert (norm_email (h ! b)) se"] fresh
      by auto
  next
    case False
    then have "remove_duplicates_loop h (b # bs) sn se [] = remove_duplicates_loop h bs sn se []"
      by (auto simp: Let_def)
    then show ?thesis using Cons.IH [of sn se] by simp
  qed
qed

lemma remove_duplicates_loop_keeps_all:
  "distinct (map (\<lambda>a. norm_name (h ! a)) bs) \<Longrightarrow>
   distinct (map (\<lambda>a. norm_email (h ! a)) bs) \<Longrightarrow>
   (\<forall>a \<in> set bs. norm_name (h ! a) \<notin> sn \<and> norm_email (h ! a) \<notin> se) \<Longrightarrow>
   remove_duplicates_loop h bs sn se [] = bs"
proof (induction bs arbitrary: sn se)
  case Nil
  show ?case by simp
next
  case (Cons b bs)
  let ?sn = "insert (norm_name (h ! b)) sn" and ?se = "insert (norm_email (h ! b)) se"
  have keep: "norm_name (h ! b) \<notin> sn \<and> norm_email (h ! b) \<notin> se"
    using Cons.prems(3) by simp
  have rest: "\<forall>a \<in> set bs. norm_name (h ! a) \<notin> ?sn \<and> norm_email (h ! a) \<notin> ?se"
    using Cons.prems by (auto simp: image_iff)
  have "remove_duplicates_loop h bs ?sn ?se [] = bs"
    using Cons.IH [of ?sn ?se] Cons.prems(1,2) rest by simp
  then show ?case
    using keep remove_duplicates_loop_acc [of h bs ?sn ?se "[b]"] by (simp add: Let_def)
qed

text \<open>
  C6. For every store and every list of business dicts, the output of
  \<open>BusinessCollector._remove_duplicates\<close> holds no two elements with the same lowercased,
  trimmed name and no two elements with the same lowercased, trimmed email.
\<close>

theorem remove_duplicates_no_shared_keys:
  "distinct (map (\<lambda>a. norm_name (h ! a)) (remove_duplicates h L)) \<and>
   distinct (map (\<lambda>a. norm_email (h ! a)) (remove_duplicates h L))"
  unfolding remove_duplicates_def by (rule remove_duplicates_loop_distinct)

text \<open>
  C7. \<open>BusinessCollector._remove_duplicates\<close> is idempotent: applying it to its own
  output gives that output again.
\<close>

theorem remove_duplicates_idempotent:
  "remove_duplicates h (remove_duplicates h L) = remove_duplicates h L"
  unfolding remove_duplicates_def
  using remove_duplicates_loop_distinct [of h L "{}" "{}"]
  by (intro remove_duplicates_loop_keeps_all) simp_all

section \<open>Properties of the identifier-based deduplication\<close>

lemma seen_loop_acc:
  "seen_loop f bs seen u = u @ seen_loop f bs seen []"
proof (induction bs arbitrary: seen u)
  case Nil
  show ?case by simp
next
  case (Cons b bs)
  show ?case
    using Cons.IH [of "insert (f b) seen" "u @ [b]"] Cons.IH [of "insert (f b) seen" "[b]"]
      Cons.IH [of seen u]
    by simp
qed

lemma seen_loop_identifiers:
  "set (map f (seen_loop f bs seen [])) = set (map f bs) - seen"
proof (induction bs arbitrary: seen)
  case Nil
  show ?case by simp
next
  case (Cons b bs)
  show ?case
  proof (cases "f b \<in> seen")
    case True
    then show ?thesis using Cons.IH [of seen] by auto
  next
    case False
    then have "seen_loop f (b # bs) seen [] = b # seen_loop f bs (insert (f b) seen) []"
      using seen_loop_acc [of f bs "insert (f b) seen" "[b]"] by simp
    then show ?thesis using False Cons.IH [of "insert (f b) seen"] by auto
  qed
qed

lemma seen_loop_distinct:
  "distinct (map f (seen_loop f bs seen []))"
proof (induction bs arbitrary: seen)
  case Nil
  show ?case by simp
next
  case (Cons b bs)
  show ?case
  proof (cases "f b \<in> seen")
    case True
    then show ?thesis using Cons.IH [of seen] by simp
  next
    case False
    then have eq: "seen_loop f (b # bs) seen [] = b # seen_loop f bs (insert (f b) seen) []"
      using seen_loop_acc [of f bs "insert (f b) seen" "[b]"] by simp
    have "f b \<notin> set (map f (seen_loop f bs (insert (f b) seen) []))"
      unfolding seen_loop_identifiers by simp
    then show ?thesis unfolding eq using Cons.IH [of "insert (f b) seen"] by simp
  qed
qed

lemma seen_loop_append:
  "seen_loop f (xs @ ys) seen u = seen_loop f ys (seen \<union> f ` set xs) (seen_loop f xs seen u)"
proof (induction xs arbitrary: seen u)
  case Nil
  show ?case by simp
next
  case (Cons x xs)
  show ?case
  proof (cases "f x \<in> seen")
    case True
    then have "seen \<union> f ` set (x # xs) = seen \<union> f ` set xs" by auto
    then show ?thesis using True Cons.IH [of seen u] by simp
  next
    case False
    have "insert (f x) seen \<union> f ` set xs = seen \<union> f ` set (x # xs)" by auto
    then show ?thesis using False Cons.IH [of "insert (f x) seen" "u @ [x]"] by simp
  qed
qed

lemma seen_loop_snoc:
  "seen_loop f (xs @ [x]) {} [] =
     seen_loop f xs {} [] @ (if f x \<notin> set (map f xs) then [x] else [])"
  using seen_loop_acc [of f "[x]" "f ` set xs" "seen_loop f xs {} []"]
  by (simp add: seen_loop_append)

lemma first_occurrences_snoc:
  "first_occurrences f (xs @ [x]) =
     first_occurrences f xs @ (if f x \<notin> set (map f xs) then [x] else [])"
proof -
  let ?P = "\<lambda>i. f ((xs @ [x]) ! i) \<notin> set (map f (take i (xs @ [x])))"
  have up: "[0 ..< length (xs @ [x])] = [0 ..< length xs] @ [length xs]"
    by simp
  have flt: "filter ?P [0 ..< length xs]
           = filter (\<lambda>i. f (xs ! i) \<notin> set (map f (take i xs))) [0 ..< length xs]"
    by (rule filter_cong) (auto simp: nth_append)
  have mp: "map (\<lambda>i. (xs @ [x]) ! i) (filter Q [0 ..< length xs])
          = map (\<lambda>i. xs ! i) (filter Q [0 ..< length xs])" for Q
    by (rule map_cong) (auto simp: nth_append)
  have lst: "map (\<lambda>i. (xs @ [x]) ! i) (filter ?P [length xs])
           = (if f x \<notin> set (map f xs) then [x] else [])"
    by simp
  have "first_occurrences f (xs @ [x])
          = map (\<lambda>i. (xs @ [x]) ! i) (filter ?P [0 ..< length xs])
            @ map (\<lambda>i. (xs @ [x]) ! i) (filter ?P [length xs])"
    unfolding first_occurrences_def up filter_append map_append ..
  also have "\<dots> = first_occurrences f xs @ (if f x \<notin> set (map f xs) then [x] else [])"
    unfolding lst mp flt first_occurrences_def ..
  finally show ?thesis .
qed

lemma seen_loop_first_occurrences:
  "seen_loop f xs {} [] = first_occurrences f xs"
proof (induction xs rule: rev_induct)
  case Nil
  show ?case by (simp add: first_occurrences_def)
next
  case (snoc x xs)
  show ?case
    unfolding seen_loop_snoc first_occurrences_snoc snoc.IH ..
qed

text \<open>
  C5, as stated, fails: the enhanced and the free deduplication keep two records that
  share the normalized name \<open>acme\<close> and differ in phone.
\<close>

theorem composite_dedup_counterexample:
  "enhanced_remove_duplicates [acme_scraped ''111'', acme_scraped ''222'']
     = [acme_scraped ''111'', acme_scraped ''222'']
   \<and> py_strip (py_lower (sb_name (acme_scraped ''111'')))
       = py_strip (py_lower (sb_name (acme_scraped ''222'')))
   \<and> free_remove_duplicates [acme_free ''111'', acme_free ''222'']
     = [acme_free ''111'', acme_free ''222'']
   \<and> py_strip (py_lower (fb_name (acme_free ''111'')))
       = py_strip (py_lower (fb_name (acme_free ''222'')))"
  by (simp add: enhanced_remove_duplicates_def free_remove_duplicates_def
      enhanced_identifier_def free_identifier_def acme_scraped_def acme_free_def py_or_def)

text \<open>
  C5, amended. The enhanced and the free deduplication work on one composite identifier:
  the normalized name joined with the phone (or \<open>no_phone\<close>) and, in the enhanced run,
  the city (or \<open>no_city\<close>). A record is kept exactly when no earlier record of the input
  has its identifier, and dropped otherwise; so no two records of the output share an
  identifier.
\<close>

theorem composite_dedup_first_occurrences:
  "enhanced_remove_duplicates xs = first_occurrences enhanced_identifier xs
   \<and> distinct (map enhanced_identifier (enhanced_remove_duplicates xs))
   \<and> free_remove_duplicates ys = first_occurrences free_identifier ys
   \<and> distinct (map free_identifier (free_remove_duplicates ys))"
  unfolding enhanced_remove_duplicates_def free_remove_duplicates_def
  using seen_loop_distinct [of enhanced_identifier xs "{}"]
    seen_loop_distinct [of free_identifier ys "{}"]
  by (simp add: seen_loop_first_occurrences)

theorem composite_dedup_first_occurrences_witness:
  "enhanced_remove_duplicates [acme_scraped ''111'', acme_scraped ''111'', acme_scraped ''222'']
     = [acme_scraped ''111'', acme_scraped ''222'']
   \<and> free_remove_duplicates [acme_free ''111'', acme_free ''111'', acme_free ''222'']
     = [acme_free ''111'', acme_free ''222'']"
proof -
  have e: "first_occurrences enhanced_identifier
             [acme_scraped ''111'', acme_scraped ''111'', acme_scraped ''222'']
           = [acme_scraped ''111'', acme_scraped ''222'']"
    by (simp add: first_occurrences_def enhanced_identifier_def acme_scraped_def py_or_def
        upt_rec)
  have f: "first_occurrences free_identifier
             [acme_free ''111'', acme_free ''111'', acme_free ''222'']
           = [acme_free ''111'', acme_free ''222'']"
    by (simp add: first_occurrences_def free_identifier_def acme_free_def py_or_def upt_rec)
  show ?thesis
    using composite_dedup_first_occurrences
      [of "[acme_scraped ''111'', acme_scraped ''111'', acme_scraped ''222'']"
          "[acme_free ''111'', acme_free ''111'', acme_free ''222'']"] e f
    by simp
qed

section \<open>Properties of the email validation\<close>

lemma fallback_accepts_info_example:
  "validate_email_fallback ''info@example.com'' = Inr ''info@example.com''"
  by code_simp

lemma fallback_rejects_not_an_email:
  "validate_email_fallback ''not-an-email'' = Inl ValueError"
  by code_simp

lemma email_is_valid_iff:
  "email_is_valid validate dns b \<longleftrightarrow>
     dict_get (email b) '''' \<noteq> [] \<and> validate (dict_get (email b) '''') \<noteq> Inl EmailNotValidError"
  by (auto simp: email_is_valid_def validate_try_def py_index_def Let_def
      split: sum.splits option.splits if_splits)

text \<open>
  C4. With the built-in fallback validator, a record whose email is \<open>not-an-email\<close> is
  placed in the valid partition, whatever the MX lookup does: the fallback raises
  \<open>ValueError\<close>, which the handler for \<open>EmailNotValidError\<close> does not catch and the
  handler for \<open>Exception\<close> turns into "valid".
\<close>

theorem validate_business_emails_fallback_keeps_malformed:
  "validate_business_emails validate_email_fallback dns [malformed_business] [0] = ([0], [])"
  by (simp add: validate_business_emails_def email_is_valid_iff malformed_business_def
      dict_get_def fallback_rejects_not_an_email)

section \<open>Properties of the confidence score\<close>

lemma float_literals_nearest:
  "\<bar>fval f_0_3 - 3 / 10\<bar> \<le> 1 / 2 ^ 55" "\<bar>fval f_0_25 - 25 / 100\<bar> = 0"
  "\<bar>fval f_0_2 - 2 / 10\<bar> \<le> 1 / 2 ^ 56" "\<bar>fval f_0_15 - 15 / 100\<bar> \<le> 1 / 2 ^ 56"
  "\<bar>fval f_0_1 - 1 / 10\<bar> \<le> 1 / 2 ^ 57" "\<bar>fval f_0_05 - 5 / 100\<bar> \<le> 1 / 2 ^ 58"
  "fval f_1_0 = 1" "fval f_0_0 = 0"
  by (simp_all add: fval_def f_0_3_def f_0_25_def f_0_2_def f_0_15_def f_0_1_def f_0_05_def
      f_1_0_def f_0_0_def power_int_minus)

lemma calculate_confidence_score_tests:
  "calculate_confidence_score b =
     score_of_tests (name_ok (sb_name b)) (truthy (sb_email b)) (truthy (sb_phone b))
       (truthy (sb_website b)) (truthy (sb_address b)) (type_in_category b)
       (trusted_source (sb_source b))"
  by (simp only: calculate_confidence_score_def score_of_tests_def)

lemma score_of_tests_error:
  "\<forall>n e p w a c s.
     \<bar>fval (score_of_tests n e p w a c s) - exact_of_tests n e p w a c s\<bar> \<le> 1 / 2 ^ 53"
  by code_simp

lemma score_of_tests_floor:
  "\<forall>e p w a c s. fle f_0_3 (score_of_tests True e p w a c s)"
  by code_simp

lemma score_of_tests_full:
  "\<forall>c. fval (score_of_tests True True True True True c True) = 1"
  by code_simp

lemma score_of_tests_name_only:
  "score_of_tests True False False False False False False = f_0_3"
  by code_simp

lemma score_of_tests_le_one:
  "\<forall>n e p w a c s. fval (score_of_tests n e p w a c s) \<le> 1"
  by code_simp

text \<open>
  The name test measures the trimmed name: a record whose only field is the name \<open>ab\<close>
  followed by a space scores \<open>0.0\<close>. The only caller passes names that
  \<open>get_text(strip=True)\<close> has stripped, for which the trimmed and the raw length agree.
\<close>

lemma padded_name_scores_zero:
  "3 \<le> length (sb_name (bare_business ''ab ''))
   \<and> weighted_sum_by_length (bare_business ''ab '') = 3 / 10
   \<and> fval (calculate_confidence_score (bare_business ''ab '')) = 0"
  by code_simp

lemma name_ok_stripped: "py_strip n = n \<Longrightarrow> name_ok n \<longleftrightarrow> 3 \<le> length n"
  by (auto simp: name_ok_def)

lemma confidence_score_weighted_sum_trimmed:
  "\<bar>fval (calculate_confidence_score b) - weighted_sum b\<bar> \<le> 1 / 2 ^ 53
   \<and> fval (calculate_confidence_score b) \<le> 1"
  unfolding calculate_confidence_score_tests weighted_sum_def
  using score_of_tests_error score_of_tests_le_one by blast

text \<open>
  C9. On a record whose name carries no outer whitespace, as every name that
  \<open>_extract_business_from_element\<close> passes, \<open>_calculate_confidence_score\<close> computes the
  weighted sum +0.3 for a name of length at least 3, +0.25 if the email is present,
  +0.2 if the phone is present, +0.15 if the website is present, +0.1 if the address is
  present, +0.1 if the business type occurs inside the category, +0.05 if the source is
  one of the two trusted directories, clamped to at most 1.0. The score is that sum of
  binary64 numbers, added in this order; it is at most 1 and within \<open>2 ^ -53\<close> of the sum
  in exact arithmetic. A record with name, email, phone, website, address and a
  trusted source scores exactly 1.0, and a record with only a name of length at least
  3 scores exactly the float 0.3.
\<close>

theorem confidence_score_weighted_sum:
  assumes "py_strip (sb_name b) = sb_name b"
  shows "calculate_confidence_score b =
           score_of_tests (3 \<le> length (sb_name b)) (truthy (sb_email b)) (truthy (sb_phone b))
             (truthy (sb_website b)) (truthy (sb_address b)) (type_in_category b)
             (trusted_source (sb_source b))
         \<and> \<bar>fval (calculate_confidence_score b) - weighted_sum_by_length b\<bar> \<le> 1 / 2 ^ 53
         \<and> fval (calculate_confidence_score b) \<le> 1
         \<and> (3 \<le> length (sb_name b) \<and> truthy (sb_email b) \<and> truthy (sb_phone b)
              \<and> truthy (sb_website b) \<and> truthy (sb_address b)
              \<and> trusted_source (sb_source b)
             \<longrightarrow> fval (calculate_confidence_score b) = 1)
         \<and> (3 \<le> length (sb_name b) \<and> \<not> truthy (sb_email b) \<and> \<not> truthy (sb_phone b)
              \<and> \<not> truthy (sb_website b) \<and> \<not> truthy (sb_address b)
              \<and> \<not> type_in_category b \<and> \<not> trusted_source (sb_source b)
             \<longrightarrow> calculate_confidence_score b = f_0_3)"
  unfolding calculate_confidence_score_tests weighted_sum_by_length_def
    name_ok_stripped [OF assms]
  using score_of_tests_error score_of_tests_le_one score_of_tests_full
    score_of_tests_name_only
  by auto

theorem confidence_score_weighted_sum_witness:
  "fval (calculate_confidence_score full_business) = 1
   \<and> calculate_confidence_score (bare_business ''Arpatech'') = f_0_3
   \<and> weighted_sum_by_length (bare_business ''Arpatech'') = 3 / 10"
proof -
  have sf: "py_strip (sb_name full_business) = sb_name full_business"
    by code_simp
  have sb: "py_strip (sb_name (bare_business ''Arpatech'')) = sb_name (bare_business ''Arpatech'')"
    by code_simp
  have full: "3 \<le> length (sb_name full_business) \<and> truthy (sb_email full_business)
      \<and> truthy (sb_phone full_business) \<and> truthy (sb_website full_business)
      \<and> truthy (sb_address full_business) \<and> trusted_source (sb_source full_business)"
    by code_simp
  have bare: "3 \<le> length (sb_name (bare_business ''Arpatech''))
      \<and> \<not> truthy (sb_email (bare_business ''Arpatech''))
      \<and> \<not> truthy (sb_phone (bare_business ''Arpatech''))
      \<and> \<not> truthy (sb_website (bare_business ''Arpatech''))
      \<and> \<not> truthy (sb_address (bare_business ''Arpatech''))
      \<and> \<not> type_in_category (bare_business ''Arpatech'')
      \<and> \<not> trusted_source (sb_source (bare_business ''Arpatech''))"
    by code_simp
  have ws: "weighted_sum_by_length (bare_business ''Arpatech'') = 3 / 10"
    by code_simp
  show ?thesis
    using confidence_score_weighted_sum [OF sf] confidence_score_weighted_sum [OF sb]
      full bare ws
    by blast
qed

text \<open>
  C10. Whenever \<open>_extract_business_from_element\<close> finds a name that passes the name
  guard, it returns the record it constructed: the confidence score of that record is
  at least 0.3, so the floor never discards it. The method returns \<open>None\<close> only when no
  name is found or the name fails the guard.
\<close>

theorem extract_floor_never_discards:
  "(select_name el sels = Some n \<and> n \<noteq> [] \<and> 3 \<le> length (py_strip n)
      \<longrightarrow> (\<exists>b. extract_business_from_element ci el sels category city source_name = Some b
               \<and> sb_name b = n \<and> fle f_0_3 (sb_confidence_score b)))
   \<and> (extract_business_from_element ci el sels category city source_name = None
      \<longleftrightarrow> (case select_name el sels of None \<Rightarrow> True
             | Some n \<Rightarrow> n = [] \<or> length (py_strip n) < 3))"
proof -
  have floor: "fle f_0_3 (calculate_confidence_score b)" if "name_ok (sb_name b)" for b
    unfolding calculate_confidence_score_tests using that score_of_tests_floor by simp
  show ?thesis
    by (auto simp: extract_business_from_element_def Let_def new_scraped_business_def
        name_ok_def intro!: floor split: option.splits)
qed

theorem extract_floor_never_discards_witness:
  "select_name listing_element [''h2'', ''h3''] = Some ''Arpatech''
   \<and> (\<exists>b. extract_business_from_element no_contact_info listing_element [''h2'', ''h3'']
             ''Technology'' ''Karachi'' ''yellow_pages_pk'' = Some b
          \<and> sb_name b = ''Arpatech'' \<and> fle f_0_3 (sb_confidence_score b))"
proof -
  have sel: "select_name listing_element [''h2'', ''h3''] = Some ''Arpatech''"
    by (simp add: listing_element_def)
  have len: "''Arpatech'' \<noteq> [] \<and> 3 \<le> length (py_strip ''Arpatech'')"
    by code_simp
  show ?thesis
    using extract_floor_never_discards [of listing_element "[''h2'', ''h3'']" "''Arpatech''"
        no_contact_info "''Technology''" "''Karachi''" "''yellow_pages_pk''"] sel len
    by blast
qed

section \<open>Properties of the business collector\<close>

lemma verified_records_11: "verified_records ! 11 = shaukat_khanum"
  by code_simp

lemma lookup_healthcare_lahore:
  "lookup_verified business_database ''Healthcare & Medical'' ''Lahore'' = Some [DictRef 11]"
  by code_simp

lemma set_source_healthcare_lahore:
  "set_source_loop ''verified_database'' [DictRef 11] [] verified_records
     = (Inr [11], verified_records)"
  by code_simp

lemma remove_duplicates_healthcare_lahore: "remove_duplicates verified_records [11] = [11]"
  by code_simp

lemma shaukat_khanum_site_is_http: "py_startswith ''https://shaukatkhanum.org.pk'' ''http''"
  by code_simp

lemma validate_email_fallback_not_EmailNotValidError:
  "validate_email_fallback em \<noteq> Inl EmailNotValidError"
  by (simp add: validate_email_fallback_def)

text \<open>
  With a target of at least 2 and no scraping results the fallback branch of the
  \<open>try\<close> block runs: for the dataset's category \<open>Healthcare & Medical\<close> in Lahore the
  result is the one stored record, its source written as \<open>verified_database\<close>. The
  dataset has no category \<open>Healthcare\<close>.
\<close>

lemma collect_healthcare_lahore_target_2:
  assumes "scrape_google_search w ''Healthcare & Medical'' ''Lahore'' (min (n div 2) 50) = []"
    and "scrape_google_maps w ''Healthcare & Medical'' ''Lahore'' (min (n div 2) 50) = []"
    and "scrape_business_website w ''https://shaukatkhanum.org.pk''
           = \<lparr>ed_email = None, ed_phone = None, ed_address = None\<rparr>"
    and "w_validate_email w ''info@shaukatkhanum.org.pk'' \<noteq> Inl EmailNotValidError"
    and "2 \<le> n"
  shows "collect_businesses w business_database ''Healthcare & Medical'' ''Lahore'' n
           verified_records = (Inr [11], verified_records)
         \<and> verified_records ! 11 = shaukat_khanum"
proof -
  have thr: "int (length ([] :: addr list)) < n div 2"
    using assms(5) by simp
  have enh: "enhance_business_data w [11] verified_records = (Inr [11], verified_records)"
    using assms(3) shaukat_khanum_site_is_http
    by (simp add: enhance_business_data_def enhance_one_def verified_records_11
        shaukat_khanum_def dict_get_def)
  have val: "validate_business_emails (w_validate_email w) (w_dns w) verified_records [11]
               = ([11], [])"
    using assms(4)
    by (simp add: validate_business_emails_def email_is_valid_iff verified_records_11
        shaukat_khanum_def dict_get_def)
  have sl: "py_slice_to [11::nat] n = [11]"
    using assms(5) by (cases "nat n") (simp_all add: py_slice_to_def)
  have rest: "collect_rest w n [11] verified_records = (Inr [11], verified_records)"
    by (simp add: collect_rest_def remove_duplicates_healthcare_lahore enh val sl)
  have "collect_try w business_database ''Healthcare & Medical'' ''Lahore'' n verified_records
          = (Inr [11], verified_records)"
    using thr
    by (simp add: collect_try_def assms(1,2) alloc_def lookup_healthcare_lahore
        set_source_healthcare_lahore rest del: set_source_loop.simps)
  then show ?thesis
    by (simp add: collect_businesses_def verified_records_11)
qed

lemma collect_unknown_category:
  "fst (collect_businesses quiet_world business_database ''Healthcare'' ''Lahore'' 2
          verified_records) = Inr []"
  by code_simp

lemma py_slice_to_0: "py_slice_to xs 0 = []"
  by (simp add: py_slice_to_def)

lemma maps_urls_loop_count_0: "maps_urls_loop w category city 0 us [] = []"
  by (induction us) (auto simp: py_slice_to_0 split: option.splits)

lemma collect_rest_nothing: "collect_rest w n [] h = (Inr [], h)"
  by (simp add: collect_rest_def remove_duplicates_def enhance_business_data_def
      validate_business_emails_def py_slice_to_def)

text \<open>
  C2. With a target of 1, \<open>target_count // 2\<close> is 0: both scrapers are asked for no
  results and the fallback test \<open>len(all_businesses) < 0\<close> fails, so \<open>collect_businesses\<close>
  returns the empty list in every world, for every category and city, and the dataset
  is never read. \<open>_get_fallback_businesses\<close> with the same count does return the one
  stored record for Healthcare and Medical in Lahore, tagged
  \<open>verified_database_fallback\<close>.
\<close>

theorem collect_businesses_target_1_skips_fallback:
  "collect_businesses w db category city 1 h = (Inr [], h)
   \<and> fst (get_fallback_businesses business_database ''Healthcare & Medical'' ''Lahore'' 1
            verified_records) = Inr [11]
   \<and> snd (get_fallback_businesses business_database ''Healthcare & Medical'' ''Lahore'' 1
            verified_records) ! 11
       = shaukat_khanum\<lparr>source := Some ''verified_database_fallback''\<rparr>"
proof -
  have g: "scrape_google_search w category city 0 = []"
    by (simp add: scrape_google_search_def py_slice_to_0 split: option.splits)
  have m: "scrape_google_maps w category city 0 = []"
    by (simp only: scrape_google_maps_def maps_urls_loop_count_0)
  have "collect_try w db category city 1 h = (Inr [], h)"
    by (simp add: collect_try_def g m alloc_def collect_rest_nothing)
  then have a: "collect_businesses w db category city 1 h = (Inr [], h)"
    by (simp add: collect_businesses_def)
  have b: "fst (get_fallback_businesses business_database ''Healthcare & Medical'' ''Lahore'' 1
            verified_records) = Inr [11]
   \<and> snd (get_fallback_businesses business_database ''Healthcare & Medical'' ''Lahore'' 1
            verified_records) ! 11
       = shaukat_khanum\<lparr>source := Some ''verified_database_fallback''\<rparr>"
    by code_simp
  show ?thesis using a b by simp
qed

text \<open>
  What the two lookups of the dataset do keep: \<open>_get_fallback_businesses\<close> changes no
  field of a stored record other than \<open>source\<close>, and for every city other than
  \<open>related_types\<close> it returns a list, so that \<open>collect_businesses\<close> returns a list as
  well.
\<close>

lemma set_source_loop_returns:
  "\<forall>i \<in> set items. \<exists>a. i = DictRef a \<Longrightarrow> \<exists>bs. fst (set_source_loop tag items refs h) = Inr bs"
proof (induction items arbitrary: refs h)
  case Nil
  show ?case by simp
next
  case (Cons i items)
  then obtain a where "i = DictRef a" by auto
  then show ?case using Cons by simp
qed

lemma business_database_cities:
  "\<forall>(category, entries) \<in> set business_database. \<forall>(key, items) \<in> set entries.
     key \<noteq> ''related_types'' \<longrightarrow> (\<forall>i \<in> set items. case i of DictRef a \<Rightarrow> True | StrVal s \<Rightarrow> False)"
  by code_simp

lemma lookup_verified_refs:
  assumes "lookup_verified business_database category city = Some items"
    and "city \<noteq> ''related_types''"
  shows "\<forall>i \<in> set items. \<exists>a. i = DictRef a"
proof -
  obtain entries where e: "map_of business_database category = Some entries"
    and i: "map_of entries city = Some items"
    using assms(1) by (auto simp: lookup_verified_def split: option.splits)
  have "(category, entries) \<in> set business_database" using e by (rule map_of_SomeD)
  moreover have "(city, items) \<in> set entries" using i by (rule map_of_SomeD)
  ultimately have "\<forall>i \<in> set items. case i of DictRef a \<Rightarrow> True | StrVal s \<Rightarrow> False"
    using business_database_cities assms(2) by fastforce
  then show ?thesis
  proof (intro ballI)
    fix i
    assume "\<forall>i \<in> set items. case i of DictRef a \<Rightarrow> True | StrVal s \<Rightarrow> False" and "i \<in> set items"
    then have "case i of DictRef a \<Rightarrow> True | StrVal s \<Rightarrow> False" by blast
    then show "\<exists>a. i = DictRef a" by (cases i) simp_all
  qed
qed

lemma get_fallback_businesses_returns:
  assumes "city \<noteq> ''related_types''"
  shows "\<exists>bs. fst (get_fallback_businesses business_database category city n h) = Inr bs"
proof (cases "lookup_verified business_database category city")
  case None
  then show ?thesis by (simp add: get_fallback_businesses_def)
next
  case (Some items)
  from set_source_loop_returns [OF lookup_verified_refs [OF Some assms]]
  obtain bs where "fst (set_source_loop ''verified_database_fallback'' items [] h) = Inr bs"
    by blast
  then show ?thesis
    using Some by (auto simp: get_fallback_businesses_def split: prod.splits sum.splits)
qed

lemma collect_businesses_returns_list:
  assumes "city \<noteq> ''related_types''"
  shows "\<exists>bs. fst (collect_businesses w business_database category city n h) = Inr bs"
  using get_fallback_businesses_returns [OF assms]
  by (auto simp: collect_businesses_def split: prod.splits sum.splits)

lemma set_source_loop_frame:
  "length (snd (set_source_loop tag items refs h)) = length h
   \<and> (\<forall>a. (snd (set_source_loop tag items refs h) ! a)\<lparr>source := s\<rparr> = (h ! a)\<lparr>source := s\<rparr>)"
proof (induction items arbitrary: refs h)
  case Nil
  show ?case by simp
next
  case (Cons i items)
  show ?case
  proof (cases i)
    case (StrVal t)
    then show ?thesis by simp
  next
    case (DictRef b)
    have "(h[b := (h ! b)\<lparr>source := Some tag\<rparr>] ! a)\<lparr>source := s\<rparr> = (h ! a)\<lparr>source := s\<rparr>" for a
      by (cases "b < length h"; cases "a = b") (simp_all add: list_update_beyond)
    then show ?thesis using DictRef Cons.IH [of "refs @ [b]" "h[b := (h ! b)\<lparr>source := Some tag\<rparr>]"]
      by simp
  qed
qed

lemma get_fallback_businesses_frame:
  "length (snd (get_fallback_businesses db category city n h)) = length h
   \<and> (\<forall>a. (snd (get_fallback_businesses db category city n h) ! a)\<lparr>source := s\<rparr>
           = (h ! a)\<lparr>source := s\<rparr>)"
proof (cases "lookup_verified db category city")
  case None
  then show ?thesis by (simp add: get_fallback_businesses_def)
next
  case (Some items)
  have "snd (get_fallback_businesses db category city n h)
          = snd (set_source_loop ''verified_database_fallback'' items [] h)"
    using Some by (simp add: get_fallback_businesses_def split: prod.splits sum.splits)
  then show ?thesis
    using set_source_loop_frame [of "''verified_database_fallback''" items "[]" h s] by simp
qed

text \<open>
  C3. \<open>_get_fallback_businesses\<close> copies the stored list, not the dicts in it: after
  the call for Technology in Karachi with a count of 1 the stored records carry the
  source tag \<open>verified_database_fallback\<close>, the one that was returned and the two that
  were not.
\<close>

theorem get_fallback_businesses_writes_to_dataset:
  "fst (get_fallback_businesses business_database ''Technology'' ''Karachi'' 1 verified_records)
     = Inr [0]
   \<and> map source (take 3 verified_records)
       = [Some ''verified_database'', Some ''verified_database'', Some ''verified_database'']
   \<and> map source (take 3 (snd (get_fallback_businesses business_database ''Technology''
         ''Karachi'' 1 verified_records)))
       = [Some ''verified_database_fallback'', Some ''verified_database_fallback'',
          Some ''verified_database_fallback'']"
  by code_simp

text \<open>
  C8. For the city \<open>related_types\<close>, which every category dict has as a key, the lookup
  finds a list of strings. With no scraping results the fallback branch of the \<open>try\<close>
  block raises \<open>TypeError\<close> at the first string; the handler calls
  \<open>_get_fallback_businesses\<close>, which raises \<open>TypeError\<close> in the same way, and that
  exception reaches the caller.
\<close>

theorem collect_businesses_raises:
  "fst (collect_businesses quiet_world business_database ''Technology'' ''related_types'' 2
          verified_records) = Inl TypeError"
  by code_simp

section \<open>Properties of the \<open>verified\<close> flag\<close>

lemma parse_search_result_verified:
  "parse_search_result w category city k result = Inr (Some b) \<Longrightarrow> verified b = Some False"
  by (auto simp: parse_search_result_def Let_def split: option.splits)

lemma search_results_loop_verified:
  "\<forall>b \<in> set businesses. verified b = Some False \<Longrightarrow>
   \<forall>b \<in> set (search_results_loop w category city k results businesses). verified b = Some False"
proof (induction results arbitrary: k businesses)
  case Nil
  then show ?case by simp
next
  case (Cons result results)
  show ?case
  proof (cases "parse_search_result w category city k result")
    case (Inl e)
    then show ?thesis using Cons.IH [OF Cons.prems] by simp
  next
    case (Inr r)
    show ?thesis
    proof (cases r)
      case None
      then show ?thesis using Inr Cons.IH [OF Cons.prems] by simp
    next
      case (Some business)
      have "verified business = Some False"
        using Inr Some parse_search_result_verified by blast
      then have "\<forall>b \<in> set (businesses @ [business]). verified b = Some False"
        using Cons.prems by simp
      from Cons.IH [OF this] show ?thesis using Inr Some by simp
    qed
  qed
qed

lemma parse_maps_element_verified:
  "parse_maps_element w category city k el = Some b \<Longrightarrow> verified b = Some False"
  by (auto simp: parse_maps_element_def Let_def split: if_splits)

lemma maps_elements_loop_verified:
  "\<forall>b \<in> set businesses. verified b = Some False \<Longrightarrow>
   \<forall>b \<in> set (maps_elements_loop w category city count k els businesses). verified b = Some False"
proof (induction els arbitrary: k businesses)
  case Nil
  then show ?case by simp
next
  case (Cons el els)
  show ?case
  proof (cases "parse_maps_element w category city k el")
    case None
    then show ?thesis using Cons.IH [OF Cons.prems] by simp
  next
    case (Some business)
    let ?bs = "if \<not> (\<exists>b \<in> set businesses.
                        py_lower (dict_get (name b) '''') = py_lower (dict_get (name business) ''''))
               then businesses @ [business] else businesses"
    have "verified business = Some False"
      using Some parse_maps_element_verified by blast
    then have inv: "\<forall>b \<in> set ?bs. verified b = Some False"
      using Cons.prems by simp
    have "maps_elements_loop w category city count k (el # els) businesses
            = (if count \<le> int (length ?bs) then ?bs
               else maps_elements_loop w category city count (Suc k) els ?bs)"
      using Some by (simp add: Let_def)
    then show ?thesis using inv Cons.IH [OF inv] by presburger
  qed
qed

lemma maps_urls_loop_verified:
  "\<forall>b \<in> set businesses. verified b = Some False \<Longrightarrow>
   \<forall>b \<in> set (maps_urls_loop w category city count us businesses). verified b = Some False"
proof (induction us arbitrary: businesses)
  case Nil
  then show ?case by simp
next
  case (Cons u us)
  show ?case
  proof (cases "w_maps_page w u")
    case None
    then show ?thesis using Cons.IH [OF Cons.prems] by simp
  next
    case (Some els)
    let ?bs = "maps_elements_loop w category city count 0 (py_slice_to els count) businesses"
    have inv: "\<forall>b \<in> set ?bs. verified b = Some False"
      using maps_elements_loop_verified [OF Cons.prems] by blast
    have "maps_urls_loop w category city count (u # us) businesses
            = (if ?bs \<noteq> [] then ?bs else maps_urls_loop w category city count us ?bs)"
      using Some by (simp add: Let_def)
    then show ?thesis using inv Cons.IH [OF inv] by presburger
  qed
qed

lemma parse_ddg_result_verified:
  "parse_ddg_result fx query city result = Some b \<Longrightarrow> \<not> fb_verified b"
  by (auto simp: parse_ddg_result_def new_business_data_def Let_def
      split: option.splits if_splits)

lemma ddg_results_verified:
  "b \<in> set (List.map_filter (parse_ddg_result fx query city) results) \<Longrightarrow> \<not> fb_verified b"
  by (induction results)
    (auto simp: List.map_filter_simps dest: parse_ddg_result_verified split: option.splits)

lemma fallback_loop_verified:
  "\<forall>i < length u. gb_verified (u ! i) = (i < 5) \<Longrightarrow>
   \<forall>i < length (fst (fallback_loop category city count names u un ue st)).
      gb_verified (fst (fallback_loop category city count names u un ue st) ! i) = (i < 5)"
proof (induction names arbitrary: u un ue st)
  case Nil
  then show ?case by simp
next
  case (Cons p names)
  obtain i nm where p: "p = (i, nm)" by (cases p)
  let ?u' = "u @ [fallback_business category city i nm (length u)]"
  have inv: "\<forall>j < length ?u'. gb_verified (?u' ! j) = (j < 5)"
    using Cons.prems by (auto simp: nth_append fallback_business_def Let_def less_Suc_eq)
  show ?case
    unfolding p using Cons.prems Cons.IH [OF Cons.prems] Cons.IH [OF inv]
    by (simp add: Let_def)
qed

text \<open>
  C1, as stated, fails: on a generator without history the fallback-name generation
  returns a record with \<open>verified\<close> true, and the Gemini parse returns a record with
  \<open>verified\<close> true when the response says so.
\<close>

theorem verified_generation_counterexample:
  "map gb_verified (fst (get_fallback_businesses_with_duplicate_prevention ''Technology''
       ''Lahore'' 1 empty_history)) = [True]
   \<and> map gb_verified (fst (parse_gemini_response (JsonObject [verified_listing]) ''Technology''
       ''Lahore'' empty_history)) = [True]"
  by code_simp

text \<open>
  C1, amended. The scraping paths never return a record with \<open>verified\<close> true: every
  record of \<open>_scrape_google_search\<close>, \<open>_scrape_google_maps\<close>, of the enhanced and the free
  \<open>_extract_business_from_element\<close> and of \<open>search_businesses_duckduckgo\<close> has \<open>verified\<close>
  false. The generator paths do: the fallback-name generation marks exactly the first
  five records of its result as verified, and the Gemini parse copies the \<open>verified\<close>
  entry of each listing of the response (false when the listing has none).
\<close>

theorem verified_by_path:
  "(\<forall>b \<in> set (scrape_google_search w category city count). verified b = Some False)
   \<and> (\<forall>b \<in> set (scrape_google_maps w category city count). verified b = Some False)
   \<and> (\<forall>b. extract_business_from_element ci el sels category city src = Some b
          \<longrightarrow> \<not> sb_verified b)
   \<and> (\<forall>b. free_extract_business_from_element fx fel category city src = Some b
          \<longrightarrow> \<not> fb_verified b)
   \<and> (\<forall>b \<in> set (search_businesses_duckduckgo fx page category city). \<not> fb_verified b)
   \<and> (\<forall>i < length (fst (get_fallback_businesses_with_duplicate_prevention category city n st)).
          gb_verified (fst (get_fallback_businesses_with_duplicate_prevention category city n st) ! i)
            = (i < 5))
   \<and> map gb_verified (fst (parse_gemini_response (JsonObject js) category city st))
       = map (\<lambda>j. dict_get (jb_verified j) False) (filter has_valid_email js)"
proof (intro conjI)
  show "\<forall>b \<in> set (scrape_google_search w category city count). verified b = Some False"
    using search_results_loop_verified [of "[]"]
    by (auto simp: scrape_google_search_def split: option.splits)
  show "\<forall>b \<in> set (scrape_google_maps w category city count). verified b = Some False"
    unfolding scrape_google_maps_def by (rule maps_urls_loop_verified) simp
  show "\<forall>b. extract_business_from_element ci el sels category city src = Some b
          \<longrightarrow> \<not> sb_verified b"
    by (auto simp: extract_business_from_element_def new_scraped_business_def Let_def
        split: option.splits if_splits)
  show "\<forall>b. free_extract_business_from_element fx fel category city src = Some b
          \<longrightarrow> \<not> fb_verified b"
    by (auto simp: free_extract_business_from_element_def new_business_data_def Let_def
        split: option.splits if_splits)
  show "\<forall>b \<in> set (search_businesses_duckduckgo fx page category city). \<not> fb_verified b"
    using ddg_results_verified
    by (auto simp: search_businesses_duckduckgo_def dest!: in_set_takeD split: option.splits)
  show "\<forall>i < length (fst (get_fallback_businesses_with_duplicate_prevention category city n st)).
          gb_verified (fst (get_fallback_businesses_with_duplicate_prevention category city n st) ! i)
            = (i < 5)"
    unfolding get_fallback_businesses_with_duplicate_prevention_def Let_def
    by (rule fallback_loop_verified) simp
  show "map gb_verified (fst (parse_gemini_response (JsonObject js) category city st))
       = map (\<lambda>j. dict_get (jb_verified j) False) (filter has_valid_email js)"
    by (simp add: parse_gemini_response_def business_of_json_def comp_def)
qed

theorem verified_by_path_witness:
  "map verified (scrape_google_search busy_world ''Technology'' ''Karachi'' 5) = [Some False]
   \<and> map verified (scrape_google_maps busy_world ''Technology'' ''Karachi'' 5) = [Some False]
   \<and> map_option sb_verified (extract_business_from_element no_contact_info listing_element
        [''h2'', ''h3''] ''Technology'' ''Karachi'' ''yellow_pages_pk'') = Some False
   \<and> map_option fb_verified (free_extract_business_from_element no_extractors directory_element
        ''Technology'' ''Karachi'' ''yellow_pages_pk'') = Some False
   \<and> map fb_verified (search_businesses_duckduckgo no_extractors ddg_page ''Technology''
        ''Karachi'') = [False]
   \<and> map gb_verified (fst (get_fallback_businesses_with_duplicate_prevention ''Technology''
        ''Karachi'' 6 empty_history)) = [True, True, True, True, True, False]
   \<and> map gb_verified (fst (parse_gemini_response (JsonObject [verified_listing]) ''Technology''
        ''Karachi'' empty_history)) = [True]"
proof -
  note t = verified_by_path [of busy_world "''Technology''" "''Karachi''" 5 no_contact_info
      listing_element "[''h2'', ''h3'']" "''yellow_pages_pk''" no_extractors directory_element
      ddg_page 6 empty_history "[verified_listing]"]
  have l1: "length (scrape_google_search busy_world ''Technology'' ''Karachi'' 5) = 1"
    by code_simp
  have l2: "length (scrape_google_maps busy_world ''Technology'' ''Karachi'' 5) = 1"
    by code_simp
  have l3: "extract_business_from_element no_contact_info listing_element
        [''h2'', ''h3''] ''Technology'' ''Karachi'' ''yellow_pages_pk'' \<noteq> None"
    by code_simp
  have l4: "free_extract_business_from_element no_extractors directory_element
        ''Technology'' ''Karachi'' ''yellow_pages_pk'' \<noteq> None"
    by code_simp
  have l5: "length (search_businesses_duckduckgo no_extractors ddg_page ''Technology''
        ''Karachi'') = 1"
    by code_simp
  have l6: "length (fst (get_fallback_businesses_with_duplicate_prevention ''Technology''
        ''Karachi'' 6 empty_history)) = 6"
    by code_simp
  have l7: "filter has_valid_email [verified_listing] = [verified_listing]
            \<and> dict_get (jb_verified verified_listing) False = True"
    by code_simp
  have one: "length xs = 1 \<Longrightarrow> \<forall>x \<in> set xs. f x = v \<Longrightarrow> map f xs = [v]" for xs :: "'a list" and f :: "'a \<Rightarrow> 'b" and v
    by (cases xs) auto
  have w1: "map verified (scrape_google_search busy_world ''Technology'' ''Karachi'' 5) = [Some False]"
    using t l1 by (intro one) blast+
  have w2: "map verified (scrape_google_maps busy_world ''Technology'' ''Karachi'' 5) = [Some False]"
    using t l2 by (intro one) blast+
  have w3: "map_option sb_verified (extract_business_from_element no_contact_info listing_element
        [''h2'', ''h3''] ''Technology'' ''Karachi'' ''yellow_pages_pk'') = Some False"
    using t l3 by auto
  have w4: "map_option fb_verified (free_extract_business_from_element no_extractors
        directory_element ''Technology'' ''Karachi'' ''yellow_pages_pk'') = Some False"
    using t l4 by auto
  have w5: "map fb_verified (search_businesses_duckduckgo no_extractors ddg_page ''Technology''
        ''Karachi'') = [False]"
    using t l5 by (intro one) blast+
  have w6: "map gb_verified (fst (get_fallback_businesses_with_duplicate_prevention ''Technology''
        ''Karachi'' 6 empty_history)) = [True, True, True, True, True, False]"
    using t l6 by (intro nth_equalityI) (auto simp: less_Suc_eq numeral_eq_Suc)
  have w7: "map gb_verified (fst (parse_gemini_response (JsonObject [verified_listing])
        ''Technology'' ''Karachi'' empty_history)) = [True]"
    using t l7 by simp
  show ?thesis
    using w1 w2 w3 w4 w5 w6 w7 by blast
qed

end
